theory Spec2Isabelle
  imports Main "HOL-Library.Word"
begin

unbundle bit_operations_syntax

section \<open>Machine types\<close>

text \<open>
  The C integer types of the two source files, as words of their width.  A signed
  type is the word of its width read with \<open>sint\<close>.  The files are the Windows port
  (LLP64), so \<open>long int\<close> and \<open>LONG\<close> have 32 bits.
\<close>

type_synonym uint8_t = "8 word"
type_synonym uint16_t = "16 word"
type_synonym int16_t = "16 word"
type_synonym uint64_t = "64 word"
type_synonym DWORD = "32 word"
type_synonym LONG = "32 word"
type_synonym UINT = "32 word"

section \<open>The public header uiohook.h\<close>

text \<open>
  Modelled from the spec: the header uiohook.h is not among the sources.  The event
  types are the ones section 6 of the specification lists.
\<close>

datatype event_type =
    EVENT_HOOK_ENABLED
  | EVENT_HOOK_DISABLED
  | EVENT_KEY_TYPED
  | EVENT_KEY_PRESSED
  | EVENT_KEY_RELEASED
  | EVENT_MOUSE_CLICKED
  | EVENT_MOUSE_PRESSED
  | EVENT_MOUSE_RELEASED
  | EVENT_MOUSE_MOVED
  | EVENT_MOUSE_DRAGGED
  | EVENT_MOUSE_WHEEL

text \<open>
  Modelled from the spec: the payloads of section 6 (the header is not among the
  sources), with the \<open>clicks\<close> member of the wheel payload that
  \<open>process_mouse_wheel\<close> assigns, the members of the wheel payload in the order in
  which it assigns them.  The members of the C union \<open>data\<close> are three fields of
  the record, and an event holds its payload in the member of its type: the hook assigns
  the type and that member together, and a caller of the posts fills the member of the
  type it posts.  \<open>wheel_padding\<close> is the byte between \<open>type\<close> and
  \<open>amount\<close>, which aligns \<open>amount\<close> and which no assignment writes.
\<close>

record keyboard_event_data =
  keycode :: uint16_t
  rawcode :: uint16_t
  keychar :: "32 word"

record mouse_event_data =
  mouse_button :: uint16_t
  mouse_clicks :: uint16_t
  mouse_x :: int16_t
  mouse_y :: int16_t

record mouse_wheel_event_data =
  wheel_clicks :: uint16_t
  wheel_x :: int16_t
  wheel_y :: int16_t
  wheel_type :: uint8_t
  wheel_padding :: uint8_t
  wheel_amount :: uint16_t
  wheel_rotation :: int16_t
  wheel_direction :: uint8_t

record uiohook_event =
  ev_type :: event_type
  ev_time :: uint64_t
  ev_mask :: uint16_t
  ev_reserved :: uint16_t
  data_keyboard :: keyboard_event_data
  data_mouse :: mouse_event_data
  data_wheel :: mouse_wheel_event_data

text \<open>
  Modelled from the spec: the storage of a wheel payload read through the member
  \<open>mouse\<close> of the union.  Each member of a payload is aligned to its size and the
  bytes of a number are in little-endian order, so \<open>mouse.button\<close> is the storage of
  \<open>wheel.clicks\<close>, \<open>mouse.clicks\<close> that of \<open>wheel.x\<close>, \<open>mouse.x\<close>
  that of \<open>wheel.y\<close>, and \<open>mouse.y\<close> that of \<open>wheel.type\<close> (its low byte)
  and of the padding byte after it (its high byte).
\<close>

definition wheel_as_mouse :: "mouse_wheel_event_data \<Rightarrow> mouse_event_data" where
  "wheel_as_mouse wheel =
     \<lparr>mouse_button = wheel_clicks wheel,
      mouse_clicks = wheel_x wheel,
      mouse_x = wheel_y wheel,
      mouse_y = word_cat (wheel_padding wheel) (wheel_type wheel)\<rparr>"

text \<open>
  Modelled from the spec: the modifier masks of uiohook.h (not among the sources), one
  bit per tracked key as section 3 says; the bit positions are the ones of the
  library's header.
\<close>

definition MASK_SHIFT_L :: uint16_t where "MASK_SHIFT_L = 0x0001"
definition MASK_CTRL_L :: uint16_t where "MASK_CTRL_L = 0x0002"
definition MASK_META_L :: uint16_t where "MASK_META_L = 0x0004"
definition MASK_ALT_L :: uint16_t where "MASK_ALT_L = 0x0008"
definition MASK_SHIFT_R :: uint16_t where "MASK_SHIFT_R = 0x0010"
definition MASK_CTRL_R :: uint16_t where "MASK_CTRL_R = 0x0020"
definition MASK_META_R :: uint16_t where "MASK_META_R = 0x0040"
definition MASK_ALT_R :: uint16_t where "MASK_ALT_R = 0x0080"
definition MASK_SHIFT :: uint16_t where "MASK_SHIFT = MASK_SHIFT_L OR MASK_SHIFT_R"
definition MASK_BUTTON1 :: uint16_t where "MASK_BUTTON1 = 0x0100"
definition MASK_BUTTON2 :: uint16_t where "MASK_BUTTON2 = 0x0200"
definition MASK_BUTTON3 :: uint16_t where "MASK_BUTTON3 = 0x0400"
definition MASK_BUTTON4 :: uint16_t where "MASK_BUTTON4 = 0x0800"
definition MASK_BUTTON5 :: uint16_t where "MASK_BUTTON5 = 0x1000"
definition MASK_NUM_LOCK :: uint16_t where "MASK_NUM_LOCK = 0x2000"
definition MASK_CAPS_LOCK :: uint16_t where "MASK_CAPS_LOCK = 0x4000"
definition MASK_SCROLL_LOCK :: uint16_t where "MASK_SCROLL_LOCK = 0x8000"

text \<open>
  Modelled from the spec: the button identifiers of uiohook.h (section 6: 0 is "none",
  the buttons are 1 to 5), and its wheel constants and undefined-key sentinels.
\<close>

definition MOUSE_NOBUTTON :: uint16_t where "MOUSE_NOBUTTON = 0"
definition MOUSE_BUTTON1 :: uint16_t where "MOUSE_BUTTON1 = 1"
definition MOUSE_BUTTON2 :: uint16_t where "MOUSE_BUTTON2 = 2"
definition MOUSE_BUTTON3 :: uint16_t where "MOUSE_BUTTON3 = 3"
definition MOUSE_BUTTON4 :: uint16_t where "MOUSE_BUTTON4 = 4"
definition MOUSE_BUTTON5 :: uint16_t where "MOUSE_BUTTON5 = 5"

definition WHEEL_UNIT_SCROLL :: uint8_t where "WHEEL_UNIT_SCROLL = 1"
definition WHEEL_BLOCK_SCROLL :: uint8_t where "WHEEL_BLOCK_SCROLL = 2"
definition WHEEL_VERTICAL_DIRECTION :: uint8_t where "WHEEL_VERTICAL_DIRECTION = 3"
definition WHEEL_HORIZONTAL_DIRECTION :: uint8_t where "WHEEL_HORIZONTAL_DIRECTION = 4"
definition VC_UNDEFINED :: uint16_t where "VC_UNDEFINED = 0x0000"
definition CHAR_UNDEFINED :: "32 word" where "CHAR_UNDEFINED = 0xFFFF"

text \<open>
  Modelled from the spec: the status codes of uiohook.h that the two files return.
  The code has one general failure status; the kinds "unsupported event", "key mapping
  failed" and "injection failed" of section 7 are all \<open>UIOHOOK_FAILURE\<close>.
\<close>

datatype status = UIOHOOK_SUCCESS | UIOHOOK_FAILURE | UIOHOOK_ERROR_OUT_OF_MEMORY

section \<open>Windows declarations\<close>

text \<open>The constants of the Windows headers that the two files use, with the values of winuser.h.\<close>

definition USHRT_MAX :: uint16_t where "USHRT_MAX = 0xFFFF"
definition WHEEL_PAGESCROLL :: UINT where "WHEEL_PAGESCROLL = 0xFFFFFFFF"
definition XBUTTON1 :: "16 word" where "XBUTTON1 = 0x0001"
definition XBUTTON2 :: "16 word" where "XBUTTON2 = 0x0002"

definition WM_KEYDOWN :: "32 word" where "WM_KEYDOWN = 0x0100"
definition WM_KEYUP :: "32 word" where "WM_KEYUP = 0x0101"
definition WM_SYSKEYDOWN :: "32 word" where "WM_SYSKEYDOWN = 0x0104"
definition WM_SYSKEYUP :: "32 word" where "WM_SYSKEYUP = 0x0105"
definition WM_MOUSEMOVE :: "32 word" where "WM_MOUSEMOVE = 0x0200"
definition WM_LBUTTONDOWN :: "32 word" where "WM_LBUTTONDOWN = 0x0201"
definition WM_LBUTTONUP :: "32 word" where "WM_LBUTTONUP = 0x0202"
definition WM_RBUTTONDOWN :: "32 word" where "WM_RBUTTONDOWN = 0x0204"
definition WM_RBUTTONUP :: "32 word" where "WM_RBUTTONUP = 0x0205"
definition WM_MBUTTONDOWN :: "32 word" where "WM_MBUTTONDOWN = 0x0207"
definition WM_MBUTTONUP :: "32 word" where "WM_MBUTTONUP = 0x0208"
definition WM_MOUSEWHEEL :: "32 word" where "WM_MOUSEWHEEL = 0x020A"
definition WM_XBUTTONDOWN :: "32 word" where "WM_XBUTTONDOWN = 0x020B"
definition WM_XBUTTONUP :: "32 word" where "WM_XBUTTONUP = 0x020C"
definition WM_MOUSEHWHEEL :: "32 word" where "WM_MOUSEHWHEEL = 0x020E"
definition WM_NCXBUTTONDOWN :: "32 word" where "WM_NCXBUTTONDOWN = 0x00AB"
definition WM_NCXBUTTONUP :: "32 word" where "WM_NCXBUTTONUP = 0x00AC"

definition VK_LBUTTON :: DWORD where "VK_LBUTTON = 0x01"
definition VK_RBUTTON :: DWORD where "VK_RBUTTON = 0x02"
definition VK_MBUTTON :: DWORD where "VK_MBUTTON = 0x04"
definition VK_XBUTTON1 :: DWORD where "VK_XBUTTON1 = 0x05"
definition VK_XBUTTON2 :: DWORD where "VK_XBUTTON2 = 0x06"
definition VK_CAPITAL :: DWORD where "VK_CAPITAL = 0x14"
definition VK_LWIN :: DWORD where "VK_LWIN = 0x5B"
definition VK_RWIN :: DWORD where "VK_RWIN = 0x5C"
definition VK_NUMLOCK :: DWORD where "VK_NUMLOCK = 0x90"
definition VK_SCROLL :: DWORD where "VK_SCROLL = 0x91"
definition VK_LSHIFT :: DWORD where "VK_LSHIFT = 0xA0"
definition VK_RSHIFT :: DWORD where "VK_RSHIFT = 0xA1"
definition VK_LCONTROL :: DWORD where "VK_LCONTROL = 0xA2"
definition VK_RCONTROL :: DWORD where "VK_RCONTROL = 0xA3"
definition VK_LMENU :: DWORD where "VK_LMENU = 0xA4"
definition VK_RMENU :: DWORD where "VK_RMENU = 0xA5"

record POINT =
  pt_x :: LONG
  pt_y :: LONG

text \<open>The members of \<open>KBDLLHOOKSTRUCT\<close> that the hook reads.\<close>

record KBDLLHOOKSTRUCT =
  vkCode :: DWORD
  kb_flags :: DWORD
  kb_time :: DWORD

text \<open>The members of \<open>MSLLHOOKSTRUCT\<close> that the hook reads.\<close>

record MSLLHOOKSTRUCT =
  pt :: POINT
  mouseData :: DWORD
  ms_time :: DWORD

definition HIWORD :: "DWORD \<Rightarrow> 16 word" where
  "HIWORD l = ucast (drop_bit 16 l)"

section \<open>input_hook.c: the state of the hook\<close>

datatype log_level = LOG_LEVEL_DEBUG | LOG_LEVEL_INFO | LOG_LEVEL_WARN | LOG_LEVEL_ERROR

text \<open>
  The file's static variables, and two traces that the C program leaves outside itself:
  \<open>dispatched\<close>, the events handed to the registered callback in order (each as
  it was when the callback was called), and \<open>logged\<close>, the messages given to
  \<open>logger\<close> at level warning or error (the debug messages are left out).
  The callback gets a pointer to the static event and may write to it: it is a
  function from the event it is given to the event it leaves behind.  It does not reach
  the other static variables, and the hook procedures are not entered again while it
  runs.
\<close>

record hook_state =
  current_modifiers :: uint16_t
  click_count :: uint16_t
  click_time :: uint64_t
  click_button :: uint16_t
  last_click :: POINT
  event :: uiohook_event
  dispatch :: "(uiohook_event \<Rightarrow> uiohook_event) option"
  dispatched :: "uiohook_event list"
  logged :: "(log_level \<times> string) list"

text \<open>
  What the file asks of the rest of the library and of the system:
  \<open>hook_get_multi_click_time()\<close> (a \<open>long int\<close>), the number of lines
  \<open>SystemParametersInfo(SPI_GETWHEELSCROLLLINES)\<close> reports, the key state
  \<open>GetKeyState\<close> (a \<open>SHORT\<close>), and the key tables of input_helper.h:
  \<open>keycode_to_scancode\<close> and \<open>keycode_to_unicode\<close>, which gives the characters
  that a key types (the buffer it fills, as long as the count it returns).
\<close>

record hook_env =
  hook_get_multi_click_time :: int
  wheel_scroll_lines :: UINT
  GetKeyState :: "DWORD \<Rightarrow> 16 word"
  keycode_to_scancode :: "DWORD \<Rightarrow> DWORD \<Rightarrow> uint16_t"
  keycode_to_unicode :: "DWORD \<Rightarrow> 16 word list"

definition logger :: "log_level \<Rightarrow> string \<Rightarrow> hook_state \<Rightarrow> hook_state" where
  "logger lvl msg s = s\<lparr>logged := logged s @ [(lvl, msg)]\<rparr>"

definition dispatch_event :: "hook_state \<Rightarrow> hook_state" where
  "dispatch_event s =
     (case dispatch s of
        Some f \<Rightarrow> s\<lparr>dispatched := dispatched s @ [event s], event := f (event s)\<rparr>
      | None \<Rightarrow> logger LOG_LEVEL_WARN ''No dispatch callback set!'' s)"

definition set_modifier_mask :: "uint16_t \<Rightarrow> hook_state \<Rightarrow> hook_state" where
  "set_modifier_mask m s = s\<lparr>current_modifiers := current_modifiers s OR m\<rparr>"

definition unset_modifier_mask :: "uint16_t \<Rightarrow> hook_state \<Rightarrow> hook_state" where
  "unset_modifier_mask m s = s\<lparr>current_modifiers := current_modifiers s AND NOT m\<rparr>"

definition get_modifiers :: "hook_state \<Rightarrow> uint16_t" where
  "get_modifiers s = current_modifiers s"

text \<open>
  \<open>initialize_modifiers\<close> sets the bit of every key whose state has its high-order bit
  set, one test after the other.
\<close>

definition key_is_down :: "hook_env \<Rightarrow> DWORD \<Rightarrow> bool" where
  "key_is_down env vk = (sint (GetKeyState env vk) < 0)"

definition initialize_modifiers :: "hook_env \<Rightarrow> hook_state \<Rightarrow> hook_state" where
  "initialize_modifiers env s0 =
     foldl (\<lambda>s (vk, m). if key_is_down env vk then set_modifier_mask m s else s)
       (s0\<lparr>current_modifiers := 0x0000\<rparr>)
       [(VK_LSHIFT, MASK_SHIFT_L), (VK_RSHIFT, MASK_SHIFT_R),
        (VK_LCONTROL, MASK_CTRL_L), (VK_RCONTROL, MASK_CTRL_R),
        (VK_LMENU, MASK_ALT_L), (VK_RMENU, MASK_ALT_R),
        (VK_LWIN, MASK_META_L), (VK_RWIN, MASK_META_R),
        (VK_LBUTTON, MASK_BUTTON1), (VK_RBUTTON, MASK_BUTTON2), (VK_MBUTTON, MASK_BUTTON3),
        (VK_XBUTTON1, MASK_BUTTON4), (VK_XBUTTON2, MASK_BUTTON5),
        (VK_NUMLOCK, MASK_NUM_LOCK), (VK_CAPITAL, MASK_CAPS_LOCK),
        (VK_SCROLL, MASK_SCROLL_LOCK)]"

text \<open>
  The cast \<open>(long int) (timestamp - click_time)\<close>: the difference of the two 64-bit
  timestamps wraps, and its low 32 bits are read as a signed number.
\<close>

definition to_long_int :: "uint64_t \<Rightarrow> int" where
  "to_long_int d = sint (ucast d :: 32 word)"

text \<open>
  The timestamp of a notification is \<open>mshook->time\<close> (the build without
  \<open>USE_EPOCH_TIME\<close>, which is the default), widened to 64 bits.
\<close>

definition timestamp_of :: "MSLLHOOKSTRUCT \<Rightarrow> uint64_t" where
  "timestamp_of mshook = ucast (ms_time mshook)"

text \<open>The assignments that populate the static event for a mouse event.\<close>

definition populate_mouse_event ::
  "event_type \<Rightarrow> uint64_t \<Rightarrow> uint16_t \<Rightarrow> MSLLHOOKSTRUCT \<Rightarrow> hook_state \<Rightarrow> hook_state" where
  "populate_mouse_event ty timestamp button mshook s =
     s\<lparr>event := (event s)
        \<lparr>ev_time := timestamp,
         ev_reserved := 0x00,
         ev_type := ty,
         ev_mask := get_modifiers s,
         data_mouse := (data_mouse (event s))
           \<lparr>mouse_button := button,
            mouse_clicks := click_count s,
            mouse_x := ucast (pt_x (pt mshook)),
            mouse_y := ucast (pt_y (pt mshook))\<rparr>\<rparr>\<rparr>"

subsection \<open>Keys\<close>

text \<open>The chain of tests on \<open>vkCode\<close> that sets or clears the bit of a modifier key.\<close>

definition key_modifier_mask :: "DWORD \<Rightarrow> uint16_t option" where
  "key_modifier_mask vk =
     (if vk = VK_LSHIFT then Some MASK_SHIFT_L
      else if vk = VK_RSHIFT then Some MASK_SHIFT_R
      else if vk = VK_LCONTROL then Some MASK_CTRL_L
      else if vk = VK_RCONTROL then Some MASK_CTRL_R
      else if vk = VK_LMENU then Some MASK_ALT_L
      else if vk = VK_RMENU then Some MASK_ALT_R
      else if vk = VK_LWIN then Some MASK_META_L
      else if vk = VK_RWIN then Some MASK_META_R
      else if vk = VK_NUMLOCK then Some MASK_NUM_LOCK
      else if vk = VK_CAPITAL then Some MASK_CAPS_LOCK
      else if vk = VK_SCROLL then Some MASK_SCROLL_LOCK
      else None)"

definition populate_key_event ::
  "event_type \<Rightarrow> uint64_t \<Rightarrow> uint16_t \<Rightarrow> uint16_t \<Rightarrow> 32 word \<Rightarrow> hook_state \<Rightarrow> hook_state" where
  "populate_key_event ty timestamp code raw ch s =
     s\<lparr>event := (event s)
        \<lparr>ev_time := timestamp,
         ev_reserved := 0x00,
         ev_type := ty,
         ev_mask := get_modifiers s,
         data_keyboard := (data_keyboard (event s))
           \<lparr>keycode := code, rawcode := raw, keychar := ch\<rparr>\<rparr>\<rparr>"

definition process_key_pressed :: "hook_env \<Rightarrow> KBDLLHOOKSTRUCT \<Rightarrow> hook_state \<Rightarrow> hook_state" where
  "process_key_pressed env kbhook s0 =
     (let timestamp = (ucast (kb_time kbhook) :: uint64_t);
          s1 = (case key_modifier_mask (vkCode kbhook) of
                  Some m \<Rightarrow> set_modifier_mask m s0
                | None \<Rightarrow> s0);
          s2 = populate_key_event EVENT_KEY_PRESSED timestamp
                 (keycode_to_scancode env (vkCode kbhook) (kb_flags kbhook))
                 (ucast (vkCode kbhook)) CHAR_UNDEFINED s1;
          s3 = dispatch_event s2
      in if ev_reserved (event s3) XOR 0x01 \<noteq> 0
         then foldl (\<lambda>s c. dispatch_event
                       (populate_key_event EVENT_KEY_TYPED timestamp VC_UNDEFINED
                          (ucast (vkCode kbhook)) (ucast c) s))
                s3 (keycode_to_unicode env (vkCode kbhook))
         else s3)"

definition process_key_released :: "hook_env \<Rightarrow> KBDLLHOOKSTRUCT \<Rightarrow> hook_state \<Rightarrow> hook_state" where
  "process_key_released env kbhook s0 =
     (let timestamp = (ucast (kb_time kbhook) :: uint64_t);
          s1 = (case key_modifier_mask (vkCode kbhook) of
                  Some m \<Rightarrow> unset_modifier_mask m s0
                | None \<Rightarrow> s0);
          s2 = populate_key_event EVENT_KEY_RELEASED timestamp
                 (keycode_to_scancode env (vkCode kbhook) (kb_flags kbhook))
                 (ucast (vkCode kbhook)) CHAR_UNDEFINED s1
      in dispatch_event s2)"

text \<open>As for the mouse, the model returns whether \<open>CallNextHookEx\<close> was called.\<close>

definition keyboard_hook_event_proc ::
  "hook_env \<Rightarrow> int \<Rightarrow> 32 word \<Rightarrow> KBDLLHOOKSTRUCT \<Rightarrow> hook_state \<Rightarrow> hook_state \<times> bool" where
  "keyboard_hook_event_proc env nCode wParam kbhook s0 =
     (let s1 =
        (if wParam = WM_KEYDOWN \<or> wParam = WM_SYSKEYDOWN then process_key_pressed env kbhook s0
         else if wParam = WM_KEYUP \<or> wParam = WM_SYSKEYUP then process_key_released env kbhook s0
         else s0)
      in (s1, nCode < 0 \<or> ev_reserved (event s1) XOR 0x01 \<noteq> 0))"

subsection \<open>The click classifier\<close>

definition process_button_pressed ::
  "hook_env \<Rightarrow> MSLLHOOKSTRUCT \<Rightarrow> uint16_t \<Rightarrow> hook_state \<Rightarrow> hook_state" where
  "process_button_pressed env mshook button s0 =
     (let timestamp = timestamp_of mshook;
          s1 = (if button = click_button s0
                   \<and> to_long_int (timestamp - click_time s0) \<le> hook_get_multi_click_time env
                then (if click_count s0 < USHRT_MAX
                      then s0\<lparr>click_count := click_count s0 + 1\<rparr>
                      else logger LOG_LEVEL_WARN ''Click count overflow detected!'' s0)
                else s0\<lparr>click_count := 1, click_button := button\<rparr>);
          s2 = s1\<lparr>click_time := timestamp\<rparr>;
          s3 = s2\<lparr>last_click := (last_click s2)\<lparr>pt_x := pt_x (pt mshook),
                                                   pt_y := pt_y (pt mshook)\<rparr>\<rparr>;
          s4 = populate_mouse_event EVENT_MOUSE_PRESSED timestamp button mshook s3
      in dispatch_event s4)"

definition process_button_released ::
  "hook_env \<Rightarrow> MSLLHOOKSTRUCT \<Rightarrow> uint16_t \<Rightarrow> hook_state \<Rightarrow> hook_state" where
  "process_button_released env mshook button s0 =
     (let timestamp = timestamp_of mshook;
          s1 = populate_mouse_event EVENT_MOUSE_RELEASED timestamp button mshook s0;
          s2 = dispatch_event s1;
          s3 = (if ev_reserved (event s2) XOR 0x01 \<noteq> 0
                   \<and> pt_x (last_click s2) = pt_x (pt mshook)
                   \<and> pt_y (last_click s2) = pt_y (pt mshook)
                then dispatch_event
                       (populate_mouse_event EVENT_MOUSE_CLICKED timestamp button mshook s2)
                else s2)
      in if button = click_button s3
            \<and> to_long_int (timestamp - click_time s3) > hook_get_multi_click_time env
         then s3\<lparr>click_count := 0\<rparr>
         else s3)"

subsection \<open>The motion classifier\<close>

definition process_mouse_moved :: "hook_env \<Rightarrow> MSLLHOOKSTRUCT \<Rightarrow> hook_state \<Rightarrow> hook_state" where
  "process_mouse_moved env mshook s0 =
     (let timestamp = timestamp_of mshook
      in if pt_x (last_click s0) \<noteq> pt_x (pt mshook) \<or> pt_y (last_click s0) \<noteq> pt_y (pt mshook)
         then
           (let s1 = (if click_count s0 \<noteq> 0
                         \<and> to_long_int (timestamp - click_time s0) > hook_get_multi_click_time env
                      then s0\<lparr>click_count := 0\<rparr>
                      else s0);
                s2 = s1\<lparr>event := (event s1)
                       \<lparr>ev_time := timestamp, ev_reserved := 0x00, ev_mask := get_modifiers s1\<rparr>\<rparr>;
                mouse_dragged =
                  (ev_mask (event s2)
                     AND (MASK_BUTTON1 OR MASK_BUTTON2 OR MASK_BUTTON3 OR MASK_BUTTON4 OR MASK_BUTTON5)
                   \<noteq> 0);
                s3 = s2\<lparr>event := (event s2)
                       \<lparr>ev_type := (if mouse_dragged then EVENT_MOUSE_DRAGGED else EVENT_MOUSE_MOVED)\<rparr>\<rparr>;
                s4 = s3\<lparr>event := (event s3)
                       \<lparr>data_mouse := (data_mouse (event s3))
                          \<lparr>mouse_button := MOUSE_NOBUTTON,
                           mouse_clicks := click_count s3,
                           mouse_x := ucast (pt_x (pt mshook)),
                           mouse_y := ucast (pt_y (pt mshook))\<rparr>\<rparr>\<rparr>
            in dispatch_event s4)
         else s0)"

subsection \<open>The wheel\<close>

definition get_scroll_wheel_type :: "hook_env \<Rightarrow> uint8_t" where
  "get_scroll_wheel_type env =
     (if wheel_scroll_lines env = WHEEL_PAGESCROLL then WHEEL_BLOCK_SCROLL else WHEEL_UNIT_SCROLL)"

definition get_scroll_wheel_amount :: "hook_env \<Rightarrow> uint16_t" where
  "get_scroll_wheel_amount env =
     (if wheel_scroll_lines env = WHEEL_PAGESCROLL then 1 else ucast (wheel_scroll_lines env))"

definition process_mouse_wheel ::
  "hook_env \<Rightarrow> MSLLHOOKSTRUCT \<Rightarrow> uint8_t \<Rightarrow> hook_state \<Rightarrow> hook_state" where
  "process_mouse_wheel env mshook direction s0 =
     (let timestamp = timestamp_of mshook;
          s1 = s0\<lparr>click_count := 1, click_button := MOUSE_NOBUTTON\<rparr>;
          rotation = (ucast (HIWORD (mouseData mshook)) :: int16_t);
          s2 = s1\<lparr>event := (event s1)
                 \<lparr>ev_time := timestamp,
                  ev_reserved := 0x00,
                  ev_type := EVENT_MOUSE_WHEEL,
                  ev_mask := get_modifiers s1,
                  data_wheel := (data_wheel (event s1))
                    \<lparr>wheel_clicks := click_count s1,
                     wheel_x := ucast (pt_x (pt mshook)),
                     wheel_y := ucast (pt_y (pt mshook)),
                     wheel_type := get_scroll_wheel_type env,
                     wheel_amount := get_scroll_wheel_amount env,
                     wheel_rotation :=
                       (if direction = WHEEL_VERTICAL_DIRECTION then rotation * (- 1) else rotation),
                     wheel_direction := direction\<rparr>\<rparr>\<rparr>
      in dispatch_event s2)"

subsection \<open>The mouse hook procedure\<close>

text \<open>
  The procedure returns the result of \<open>CallNextHookEx\<close>, or \<open>-1\<close> when the event
  was consumed; the model returns whether \<open>CallNextHookEx\<close> was called.
\<close>

definition mouse_hook_event_proc ::
  "hook_env \<Rightarrow> int \<Rightarrow> 32 word \<Rightarrow> MSLLHOOKSTRUCT \<Rightarrow> hook_state \<Rightarrow> hook_state \<times> bool" where
  "mouse_hook_event_proc env nCode wParam mshook s0 =
     (let s1 =
        (if wParam = WM_LBUTTONDOWN then
           process_button_pressed env mshook MOUSE_BUTTON1 (set_modifier_mask MASK_BUTTON1 s0)
         else if wParam = WM_RBUTTONDOWN then
           process_button_pressed env mshook MOUSE_BUTTON2 (set_modifier_mask MASK_BUTTON2 s0)
         else if wParam = WM_MBUTTONDOWN then
           process_button_pressed env mshook MOUSE_BUTTON3 (set_modifier_mask MASK_BUTTON3 s0)
         else if wParam = WM_XBUTTONDOWN \<or> wParam = WM_NCXBUTTONDOWN then
           (if HIWORD (mouseData mshook) = XBUTTON1 then
              process_button_pressed env mshook MOUSE_BUTTON4 (set_modifier_mask MASK_BUTTON4 s0)
            else if HIWORD (mouseData mshook) = XBUTTON2 then
              process_button_pressed env mshook MOUSE_BUTTON5 (set_modifier_mask MASK_BUTTON5 s0)
            else
              (let button = HIWORD (mouseData mshook);
                   s = (if button = 4 then set_modifier_mask MOUSE_BUTTON4 s0
                        else if button = 5 then set_modifier_mask MOUSE_BUTTON5 s0
                        else s0)
               in process_button_pressed env mshook button s))
         else if wParam = WM_LBUTTONUP then
           process_button_released env mshook MOUSE_BUTTON1 (unset_modifier_mask MASK_BUTTON1 s0)
         else if wParam = WM_RBUTTONUP then
           process_button_released env mshook MOUSE_BUTTON2 (unset_modifier_mask MASK_BUTTON2 s0)
         else if wParam = WM_MBUTTONUP then
           process_button_released env mshook MOUSE_BUTTON3 (unset_modifier_mask MASK_BUTTON3 s0)
         else if wParam = WM_XBUTTONUP \<or> wParam = WM_NCXBUTTONUP then
           (if HIWORD (mouseData mshook) = XBUTTON1 then
              process_button_released env mshook MOUSE_BUTTON4 (unset_modifier_mask MASK_BUTTON4 s0)
            else if HIWORD (mouseData mshook) = XBUTTON2 then
              process_button_released env mshook MOUSE_BUTTON5 (unset_modifier_mask MASK_BUTTON5 s0)
            else
              (let button = HIWORD (mouseData mshook);
                   s = (if button = 4 then unset_modifier_mask MOUSE_BUTTON4 s0
                        else if button = 5 then unset_modifier_mask MOUSE_BUTTON5 s0
                        else s0)
               in process_button_released env mshook MOUSE_BUTTON5 s))
         else if wParam = WM_MOUSEMOVE then
           process_mouse_moved env mshook s0
         else if wParam = WM_MOUSEWHEEL then
           process_mouse_wheel env mshook WHEEL_VERTICAL_DIRECTION s0
         else if wParam = WM_MOUSEHWHEEL then
           process_mouse_wheel env mshook WHEEL_HORIZONTAL_DIRECTION s0
         else s0)
      in (s1, nCode < 0 \<or> ev_reserved (event s1) XOR 0x01 \<noteq> 0))"

section \<open>post_event.c: synthesizing input\<close>

subsection \<open>Windows declarations of the injection request\<close>

definition KEYEVENTF_KEYDOWN :: DWORD where "KEYEVENTF_KEYDOWN = 0x0000"
definition KEYEVENTF_EXTENDEDKEY :: DWORD where "KEYEVENTF_EXTENDEDKEY = 0x0001"
definition KEYEVENTF_KEYUP :: DWORD where "KEYEVENTF_KEYUP = 0x0002"

definition MOUSEEVENTF_MOVE :: DWORD where "MOUSEEVENTF_MOVE = 0x0001"
definition MOUSEEVENTF_LEFTDOWN :: DWORD where "MOUSEEVENTF_LEFTDOWN = 0x0002"
definition MOUSEEVENTF_LEFTUP :: DWORD where "MOUSEEVENTF_LEFTUP = 0x0004"
definition MOUSEEVENTF_RIGHTDOWN :: DWORD where "MOUSEEVENTF_RIGHTDOWN = 0x0008"
definition MOUSEEVENTF_RIGHTUP :: DWORD where "MOUSEEVENTF_RIGHTUP = 0x0010"
definition MOUSEEVENTF_MIDDLEDOWN :: DWORD where "MOUSEEVENTF_MIDDLEDOWN = 0x0020"
definition MOUSEEVENTF_MIDDLEUP :: DWORD where "MOUSEEVENTF_MIDDLEUP = 0x0040"
definition MOUSEEVENTF_XDOWN :: DWORD where "MOUSEEVENTF_XDOWN = 0x0080"
definition MOUSEEVENTF_XUP :: DWORD where "MOUSEEVENTF_XUP = 0x0100"
definition MOUSEEVENTF_WHEEL :: DWORD where "MOUSEEVENTF_WHEEL = 0x0800"
definition MOUSEEVENTF_VIRTUALDESK :: DWORD where "MOUSEEVENTF_VIRTUALDESK = 0x4000"
definition MOUSEEVENTF_ABSOLUTE :: DWORD where "MOUSEEVENTF_ABSOLUTE = 0x8000"

definition INPUT_MOUSE :: DWORD where "INPUT_MOUSE = 0"
definition INPUT_KEYBOARD :: DWORD where "INPUT_KEYBOARD = 1"

definition VK_PRIOR :: "16 word" where "VK_PRIOR = 0x21"
definition VK_NEXT :: "16 word" where "VK_NEXT = 0x22"
definition VK_END :: "16 word" where "VK_END = 0x23"
definition VK_HOME :: "16 word" where "VK_HOME = 0x24"
definition VK_LEFT :: "16 word" where "VK_LEFT = 0x25"
definition VK_UP :: "16 word" where "VK_UP = 0x26"
definition VK_RIGHT :: "16 word" where "VK_RIGHT = 0x27"
definition VK_DOWN :: "16 word" where "VK_DOWN = 0x28"
definition VK_INSERT :: "16 word" where "VK_INSERT = 0x2D"
definition VK_DELETE :: "16 word" where "VK_DELETE = 0x2E"

text \<open>
  The request \<open>INPUT\<close>.  Its members \<open>mi\<close> and \<open>ki\<close> are a union in C; they are two
  fields here, and each function below writes one of them only.  \<open>LONG\<close> values that
  the file computes with are integers: the model is exact as long as they stay within 32
  bits, where C leaves the overflow of a signed addition undefined.
\<close>

record MOUSEINPUT =
  mi_dx :: int
  mi_dy :: int
  mi_mouseData :: DWORD
  mi_dwFlags :: DWORD
  mi_time :: DWORD
  mi_dwExtraInfo :: "64 word"

record KEYBDINPUT =
  ki_wVk :: "16 word"
  ki_wScan :: "16 word"
  ki_dwFlags :: DWORD
  ki_time :: DWORD
  ki_dwExtraInfo :: "64 word"

record INPUT =
  input_type :: DWORD
  mi :: MOUSEINPUT
  ki :: KEYBDINPUT

text \<open>The request as \<open>calloc\<close> returns it: every byte zero.\<close>

definition calloc_INPUT :: INPUT where
  "calloc_INPUT =
     \<lparr>input_type = 0,
      mi = \<lparr>mi_dx = 0, mi_dy = 0, mi_mouseData = 0, mi_dwFlags = 0, mi_time = 0,
            mi_dwExtraInfo = 0\<rparr>,
      ki = \<lparr>ki_wVk = 0, ki_wScan = 0, ki_dwFlags = 0, ki_time = 0, ki_dwExtraInfo = 0\<rparr>\<rparr>"

text \<open>
  \<open>MulDiv\<close> of the Windows API, as its documentation has it: the product of the first two
  arguments (in 64 bits) divided by the third, rounded to the nearest integer (halves
  away from zero); \<open>-1\<close> when the divisor is 0 or the result does not fit in 32 bits.
\<close>

definition MulDiv :: "int \<Rightarrow> int \<Rightarrow> int \<Rightarrow> int" where
  "MulDiv nNumber nNumerator nDenominator =
     (if nDenominator = 0 then - 1
      else
        (let p = nNumber * nNumerator;
             q = (\<bar>p\<bar> + \<bar>nDenominator\<bar> div 2) div \<bar>nDenominator\<bar>;
             r = (if (p < 0) = (nDenominator < 0) then q else - q)
         in if r > 2147483647 \<or> r < - 2147483647 then - 1 else r))"

text \<open>
  The structure that \<open>get_largest_negative_coordinates()\<close> of monitor_helper.h returns:
  the most negative left and top coordinate of all displays.
\<close>

record LARGESTNEGATIVECOORDINATES =
  lnc_left :: int
  lnc_top :: int

subsection \<open>The environment of a post\<close>

text \<open>
  What the file asks of the system and of the rest of the library: whether the
  \<open>k\<close>-th \<open>calloc\<close> succeeds, whether the \<open>k\<close>-th \<open>SendInput\<close> (with the
  request it is given) succeeds, the two system metrics, the display geometry, and the
  key tables \<open>scancode_to_keycode\<close> (cast to \<open>WORD\<close>) and \<open>MapVirtualKeyW\<close>.
\<close>

record post_env =
  calloc_ok :: "nat \<Rightarrow> bool"
  SendInput_ok :: "nat \<Rightarrow> INPUT \<Rightarrow> bool"
  SM_CXVIRTUALSCREEN :: "32 word"
  SM_CYVIRTUALSCREEN :: "32 word"
  get_largest_negative_coordinates :: LARGESTNEGATIVECOORDINATES
  scancode_to_keycode :: "uint16_t \<Rightarrow> 16 word"
  MapVirtualKeyW :: "16 word \<Rightarrow> 16 word"

text \<open>
  What a post leaves outside itself: the number of allocations made, the requests given
  to \<open>SendInput\<close> in order, and the messages logged at level warning or error.
\<close>

record post_world =
  allocations :: nat
  injected :: "INPUT list"
  post_logged :: "(log_level \<times> string) list"

definition post_logger :: "log_level \<Rightarrow> string \<Rightarrow> post_world \<Rightarrow> post_world" where
  "post_logger lvl msg w = w\<lparr>post_logged := post_logged w @ [(lvl, msg)]\<rparr>"

subsection \<open>Coordinates\<close>

definition MAX_WINDOWS_COORD_VALUE :: int where
  "MAX_WINDOWS_COORD_VALUE = 2 ^ 16"

record normalized_coordinate =
  nc_x :: int
  nc_y :: int

definition get_absolute_coordinate :: "int \<Rightarrow> int \<Rightarrow> int" where
  "get_absolute_coordinate coordinate screen_size =
     MulDiv coordinate MAX_WINDOWS_COORD_VALUE screen_size"

definition normalize_coordinates ::
  "int \<Rightarrow> int \<Rightarrow> int \<Rightarrow> int \<Rightarrow> LARGESTNEGATIVECOORDINATES \<Rightarrow> normalized_coordinate" where
  "normalize_coordinates x0 y0 screen_width screen_height lnc =
     (let x1 = x0 + \<bar>lnc_left lnc\<bar>;
          y1 = y0 + \<bar>lnc_top lnc\<bar>;
          x2 = (if x1 = 0 then x1 + 1 else x1);
          y2 = (if y1 = 0 then y1 + 1 else y1)
      in \<lparr>nc_x = get_absolute_coordinate x2 screen_width,
          nc_y = get_absolute_coordinate y2 screen_height\<rparr>)"

subsection \<open>Keyboard events\<close>

definition extend_key_table :: "16 word list" where
  "extend_key_table =
     [VK_UP, VK_DOWN, VK_LEFT, VK_RIGHT, VK_HOME, VK_END, VK_PRIOR, VK_NEXT, VK_INSERT,
      VK_DELETE]"

text \<open>
  The loop of \<open>map_keyboard_event\<close> over the table: it goes on while the index is in
  the table and the key is the entry at the index.
\<close>

function extended_key_loop :: "nat \<Rightarrow> 16 word \<Rightarrow> DWORD \<Rightarrow> DWORD" where
  "extended_key_loop i wVk dwFlags =
     (if i < length extend_key_table \<and> wVk = extend_key_table ! i
      then extended_key_loop (i + 1) wVk (dwFlags OR KEYEVENTF_EXTENDEDKEY)
      else dwFlags)"
  by pat_completeness auto
termination
  by (relation "measure (\<lambda>(i, wVk, dwFlags). length extend_key_table - i)") auto

declare extended_key_loop.simps [simp del]

definition map_keyboard_event ::
  "post_env \<Rightarrow> uiohook_event \<Rightarrow> INPUT \<Rightarrow> post_world \<Rightarrow> status \<times> INPUT \<times> post_world" where
  "map_keyboard_event env ev input0 w =
     (let input1 = input0\<lparr>input_type := INPUT_KEYBOARD\<rparr>
      in if ev_type ev = EVENT_KEY_PRESSED \<or> ev_type ev = EVENT_KEY_RELEASED then
           (let input2 = input1\<lparr>ki := (ki input1)
                  \<lparr>ki_dwFlags := (if ev_type ev = EVENT_KEY_PRESSED then KEYEVENTF_KEYDOWN
                                  else KEYEVENTF_KEYUP)\<rparr>\<rparr>;
                input3 = input2\<lparr>ki := (ki input2)
                  \<lparr>ki_wVk := scancode_to_keycode env (keycode (data_keyboard ev))\<rparr>\<rparr>
            in if ki_wVk (ki input3) = 0x0000 then
                 (UIOHOOK_FAILURE, input3,
                  post_logger LOG_LEVEL_WARN ''Unable to lookup scancode'' w)
               else
                 (let input4 = input3\<lparr>ki := (ki input3)
                        \<lparr>ki_wScan := MapVirtualKeyW env (ki_wVk (ki input3))\<rparr>\<rparr>;
                      input5 =
                        (if ev_mask ev AND MASK_SHIFT \<noteq> 0
                         then input4\<lparr>ki := (ki input4)
                                \<lparr>ki_dwFlags :=
                                   extended_key_loop 0 (ki_wVk (ki input4))
                                     (ki_dwFlags (ki input4))\<rparr>\<rparr>
                         else input4)
                  in (UIOHOOK_SUCCESS, input5, w)))
         else (UIOHOOK_FAILURE, input1, w))"

subsection \<open>Mouse events and the post itself\<close>

definition button_flags ::
  "uint16_t \<Rightarrow> DWORD \<Rightarrow> DWORD \<Rightarrow> DWORD \<Rightarrow> DWORD \<Rightarrow> INPUT \<Rightarrow> INPUT" where
  "button_flags button left right middle xflag input0 =
     (if button = MOUSE_BUTTON1 then input0\<lparr>mi := (mi input0)\<lparr>mi_dwFlags := left\<rparr>\<rparr>
      else if button = MOUSE_BUTTON2 then input0\<lparr>mi := (mi input0)\<lparr>mi_dwFlags := right\<rparr>\<rparr>
      else if button = MOUSE_BUTTON3 then input0\<lparr>mi := (mi input0)\<lparr>mi_dwFlags := middle\<rparr>\<rparr>
      else
        (let input1 = input0\<lparr>mi := (mi input0)\<lparr>mi_dwFlags := xflag\<rparr>\<rparr>
         in if button = MOUSE_BUTTON4
            then input1\<lparr>mi := (mi input1)\<lparr>mi_mouseData := ucast XBUTTON1\<rparr>\<rparr>
            else if button = MOUSE_BUTTON5
            then input1\<lparr>mi := (mi input1)\<lparr>mi_mouseData := ucast XBUTTON2\<rparr>\<rparr>
            else input1\<lparr>mi := (mi input1)\<lparr>mi_mouseData := ucast button - 3\<rparr>\<rparr>))"

text \<open>
  \<open>map_mouse_event\<close> calls \<open>hook_post_event\<close>, which is
  \<open>do_hook_post_event\<close> with \<open>move_mouse\<close> true, on the event retyped to a move;
  \<open>do_hook_post_event\<close> calls \<open>map_mouse_event\<close>.  Both return the event as they
  leave it to the caller, whose structure they write to.  The result of the inner
  \<open>hook_post_event\<close> is dropped, as in the source.  \<open>map_mouse_event\<close> reads
  \<open>event->data.mouse.x\<close> and \<open>event->data.mouse.y\<close> whatever the type of the
  event is: for a wheel event, whose payload is in the member \<open>wheel\<close>, that is the
  storage of the wheel payload.
\<close>

function map_mouse_event ::
    "post_env \<Rightarrow> uiohook_event \<Rightarrow> INPUT \<Rightarrow> bool \<Rightarrow> post_world
      \<Rightarrow> status \<times> uiohook_event \<times> INPUT \<times> post_world"
  and do_hook_post_event ::
    "post_env \<Rightarrow> uiohook_event \<Rightarrow> bool \<Rightarrow> post_world \<Rightarrow> status \<times> uiohook_event \<times> post_world"
where
  "map_mouse_event env ev input0 move_mouse w =
     (let input1 = input0\<lparr>input_type := INPUT_MOUSE\<rparr>;
          input2 = input1\<lparr>mi := (mi input1)\<lparr>mi_mouseData := 0, mi_dwExtraInfo := 0, mi_time := 0\<rparr>\<rparr>;
          input3 =
            (if move_mouse then
               (let screen_width = (ucast (SM_CXVIRTUALSCREEN env) :: uint16_t);
                    screen_height = (ucast (SM_CYVIRTUALSCREEN env) :: uint16_t);
                    lnc = get_largest_negative_coordinates env;
                    mouse = (if ev_type ev = EVENT_MOUSE_WHEEL then wheel_as_mouse (data_wheel ev)
                             else data_mouse ev);
                    nc = normalize_coordinates (sint (mouse_x mouse)) (sint (mouse_y mouse))
                           (uint screen_width) (uint screen_height) lnc
                in input2\<lparr>mi := (mi input2)\<lparr>mi_dx := nc_x nc, mi_dy := nc_y nc\<rparr>\<rparr>)
             else input2)
      in if ev_type ev = EVENT_MOUSE_PRESSED then
           (if mouse_button (data_mouse ev) = MOUSE_NOBUTTON then
              (UIOHOOK_FAILURE, ev, input3,
               post_logger LOG_LEVEL_WARN ''No button specified for mouse pressed event!'' w)
            else
              (let input4 = button_flags (mouse_button (data_mouse ev)) MOUSEEVENTF_LEFTDOWN
                              MOUSEEVENTF_RIGHTDOWN MOUSEEVENTF_MIDDLEDOWN MOUSEEVENTF_XDOWN input3
               in if move_mouse then
                    (let r = do_hook_post_event env (ev\<lparr>ev_type := EVENT_MOUSE_MOVED\<rparr>) True w
                     in (UIOHOOK_SUCCESS, (fst (snd r))\<lparr>ev_type := EVENT_MOUSE_PRESSED\<rparr>, input4,
                         snd (snd r)))
                  else (UIOHOOK_SUCCESS, ev, input4, w)))
         else if ev_type ev = EVENT_MOUSE_RELEASED then
           (if mouse_button (data_mouse ev) = MOUSE_NOBUTTON then
              (UIOHOOK_FAILURE, ev, input3,
               post_logger LOG_LEVEL_WARN ''No button specified for mouse released event!'' w)
            else
              (let input4 = button_flags (mouse_button (data_mouse ev)) MOUSEEVENTF_LEFTUP
                              MOUSEEVENTF_RIGHTUP MOUSEEVENTF_MIDDLEUP MOUSEEVENTF_XUP input3
               in if move_mouse then
                    (let r = do_hook_post_event env (ev\<lparr>ev_type := EVENT_MOUSE_MOVED\<rparr>) True w
                     in (UIOHOOK_SUCCESS, (fst (snd r))\<lparr>ev_type := EVENT_MOUSE_PRESSED\<rparr>, input4,
                         snd (snd r)))
                  else (UIOHOOK_SUCCESS, ev, input4, w)))
         else if ev_type ev = EVENT_MOUSE_WHEEL then
           (UIOHOOK_SUCCESS, ev,
            input3\<lparr>mi := (mi input3)
              \<lparr>mi_dwFlags := MOUSEEVENTF_WHEEL,
               mi_mouseData :=
                 word_of_int (uint (wheel_amount (data_wheel ev))
                              * sint (wheel_rotation (data_wheel ev)))\<rparr>\<rparr>,
            w)
         else if ev_type ev = EVENT_MOUSE_DRAGGED \<or> ev_type ev = EVENT_MOUSE_MOVED then
           (UIOHOOK_SUCCESS, ev,
            input3\<lparr>mi := (mi input3)
              \<lparr>mi_dwFlags := MOUSEEVENTF_ABSOLUTE OR MOUSEEVENTF_MOVE OR MOUSEEVENTF_VIRTUALDESK\<rparr>\<rparr>,
            w)
         else (UIOHOOK_FAILURE, ev, input3, w))"
| "do_hook_post_event env ev move_mouse w =
     (if \<not> calloc_ok env (allocations w) then
        (UIOHOOK_ERROR_OUT_OF_MEMORY, ev,
         post_logger LOG_LEVEL_ERROR ''failed to allocate memory: calloc!''
           (w\<lparr>allocations := allocations w + 1\<rparr>))
      else
        (let w1 = w\<lparr>allocations := allocations w + 1\<rparr>;
             mapped =
               (if ev_type ev = EVENT_KEY_PRESSED \<or> ev_type ev = EVENT_KEY_RELEASED then
                  (let k = map_keyboard_event env ev calloc_INPUT w1
                   in (fst k, ev, snd k))
                else if ev_type ev = EVENT_MOUSE_PRESSED \<or> ev_type ev = EVENT_MOUSE_RELEASED
                        \<or> ev_type ev = EVENT_MOUSE_WHEEL \<or> ev_type ev = EVENT_MOUSE_MOVED
                        \<or> ev_type ev = EVENT_MOUSE_DRAGGED then
                  map_mouse_event env ev calloc_INPUT move_mouse w1
                else (UIOHOOK_FAILURE, ev, calloc_INPUT, w1));
             status = fst mapped;
             ev1 = fst (snd mapped);
             input1 = fst (snd (snd mapped));
             w2 = snd (snd (snd mapped))
         in if status = UIOHOOK_SUCCESS then
              (let w3 = w2\<lparr>injected := injected w2 @ [input1]\<rparr>
               in if \<not> SendInput_ok env (length (injected w2)) input1 then
                    (UIOHOOK_FAILURE, ev1, post_logger LOG_LEVEL_ERROR ''SendInput() failed!'' w3)
                  else (status, ev1, w3))
            else (status, ev1, w2)))"
  by pat_completeness auto
termination
  by (relation "measure (\<lambda>a. case a of
         Inl (env, ev, input0, move_mouse, w) \<Rightarrow>
           (if ev_type ev = EVENT_MOUSE_PRESSED \<or> ev_type ev = EVENT_MOUSE_RELEASED then 3 else 1)
       | Inr (env, ev, move_mouse, w) \<Rightarrow>
           (if ev_type ev = EVENT_MOUSE_PRESSED \<or> ev_type ev = EVENT_MOUSE_RELEASED then 4 else 2))")
     auto

declare map_mouse_event.simps [simp del] do_hook_post_event.simps [simp del]

definition hook_post_event :: "post_env \<Rightarrow> uiohook_event \<Rightarrow> post_world \<Rightarrow> status \<times> uiohook_event \<times> post_world" where
  "hook_post_event env ev w = do_hook_post_event env ev True w"

definition hook_post_event_dont_move_mouse ::
  "post_env \<Rightarrow> uiohook_event \<Rightarrow> post_world \<Rightarrow> status \<times> uiohook_event \<times> post_world" where
  "hook_post_event_dont_move_mouse env ev w = do_hook_post_event env ev False w"

section \<open>Example inputs\<close>

text \<open>
  Concrete states and notifications at which the theorems below are instantiated: a
  multi-click interval of 500 ms and no key held; a state in which button 1 was pressed twice, the last
  time at (10, 20) at time 1000; a callback that leaves the event as it is, and one
  that consumes it.
\<close>

definition example_env :: hook_env where
  "example_env =
     \<lparr>hook_get_multi_click_time = 500, wheel_scroll_lines = 3,
      GetKeyState = (\<lambda>vk. 0), keycode_to_scancode = (\<lambda>vk fl. ucast vk),
      keycode_to_unicode = (\<lambda>vk. [])\<rparr>"

definition example_event :: uiohook_event where
  "example_event =
     \<lparr>ev_type = EVENT_HOOK_ENABLED, ev_time = 0, ev_mask = 0, ev_reserved = 0,
      data_keyboard = \<lparr>keycode = 0, rawcode = 0, keychar = 0\<rparr>,
      data_mouse = \<lparr>mouse_button = 0, mouse_clicks = 0, mouse_x = 0, mouse_y = 0\<rparr>,
      data_wheel = \<lparr>wheel_clicks = 0, wheel_x = 0, wheel_y = 0, wheel_type = 0,
                    wheel_padding = 0, wheel_amount = 0, wheel_rotation = 0,
                    wheel_direction = 0\<rparr>\<rparr>"

definition accept :: "uiohook_event \<Rightarrow> uiohook_event" where
  "accept e = e"

definition consume :: "uiohook_event \<Rightarrow> uiohook_event" where
  "consume e = e\<lparr>ev_reserved := 0x01\<rparr>"

definition example_state :: "(uiohook_event \<Rightarrow> uiohook_event) option \<Rightarrow> hook_state" where
  "example_state cb =
     \<lparr>current_modifiers = 0, click_count = 2, click_time = 1000,
      click_button = MOUSE_BUTTON1, last_click = \<lparr>pt_x = 10, pt_y = 20\<rparr>,
      event = example_event, dispatch = cb, dispatched = [], logged = []\<rparr>"

text \<open>The static variables as the program starts: zero, and no button tracked.\<close>

definition startup_state :: "(uiohook_event \<Rightarrow> uiohook_event) option \<Rightarrow> hook_state" where
  "startup_state cb =
     \<lparr>current_modifiers = 0x0000, click_count = 0, click_time = 0,
      click_button = MOUSE_NOBUTTON, last_click = \<lparr>pt_x = 0, pt_y = 0\<rparr>,
      event = example_event, dispatch = cb, dispatched = [], logged = []\<rparr>"

text \<open>A run of the mouse hook over a list of messages, each with its notification.\<close>

fun mouse_session :: "hook_env \<Rightarrow> (32 word \<times> MSLLHOOKSTRUCT) list \<Rightarrow> hook_state \<Rightarrow> hook_state" where
  "mouse_session env [] s = s"
| "mouse_session env ((wParam, mshook) # rest) s =
     mouse_session env rest (fst (mouse_hook_event_proc env 0 wParam mshook s))"

definition notification :: "LONG \<Rightarrow> LONG \<Rightarrow> DWORD \<Rightarrow> DWORD \<Rightarrow> MSLLHOOKSTRUCT" where
  "notification px py data t = \<lparr>pt = \<lparr>pt_x = px, pt_y = py\<rparr>, mouseData = data, ms_time = t\<rparr>"

text \<open>
  For the posts: a system in which every allocation succeeds, the virtual screen is 1920
  by 1080 with no display left of or above the origin, the key tables map each code to
  itself, and the \<open>k\<close>-th \<open>SendInput\<close> succeeds when \<open>send k\<close> holds; events with a
  mouse or a keyboard payload.
\<close>

definition example_post_env :: "(nat \<Rightarrow> bool) \<Rightarrow> post_env" where
  "example_post_env send =
     \<lparr>calloc_ok = (\<lambda>k. True), SendInput_ok = (\<lambda>k request. send k),
      SM_CXVIRTUALSCREEN = 1920, SM_CYVIRTUALSCREEN = 1080,
      get_largest_negative_coordinates = \<lparr>lnc_left = 0, lnc_top = 0\<rparr>,
      scancode_to_keycode = (\<lambda>k. k), MapVirtualKeyW = (\<lambda>v. v)\<rparr>"

definition example_world :: post_world where
  "example_world = \<lparr>allocations = 0, injected = [], post_logged = []\<rparr>"

definition mouse_event :: "event_type \<Rightarrow> uint16_t \<Rightarrow> int16_t \<Rightarrow> int16_t \<Rightarrow> uiohook_event" where
  "mouse_event ty button px py =
     example_event\<lparr>ev_type := ty,
       data_mouse := \<lparr>mouse_button = button, mouse_clicks = 1, mouse_x = px, mouse_y = py\<rparr>\<rparr>"

definition key_event :: "event_type \<Rightarrow> uint16_t \<Rightarrow> uint16_t \<Rightarrow> uiohook_event" where
  "key_event ty modifiers code =
     example_event\<lparr>ev_type := ty, ev_mask := modifiers,
       data_keyboard := \<lparr>keycode = code, rawcode = 0, keychar = 0\<rparr>\<rparr>"

section \<open>Unfolding rules\<close>

lemmas MASK_defs =
  MASK_SHIFT_L_def MASK_CTRL_L_def MASK_META_L_def MASK_ALT_L_def
  MASK_SHIFT_R_def MASK_CTRL_R_def MASK_META_R_def MASK_ALT_R_def MASK_SHIFT_def
  MASK_BUTTON1_def MASK_BUTTON2_def MASK_BUTTON3_def MASK_BUTTON4_def MASK_BUTTON5_def
  MASK_NUM_LOCK_def MASK_CAPS_LOCK_def MASK_SCROLL_LOCK_def

lemmas MOUSE_defs =
  MOUSE_NOBUTTON_def MOUSE_BUTTON1_def MOUSE_BUTTON2_def MOUSE_BUTTON3_def
  MOUSE_BUTTON4_def MOUSE_BUTTON5_def

lemmas WM_defs =
  WM_KEYDOWN_def WM_KEYUP_def WM_SYSKEYDOWN_def WM_SYSKEYUP_def
  WM_MOUSEMOVE_def WM_LBUTTONDOWN_def WM_LBUTTONUP_def WM_RBUTTONDOWN_def WM_RBUTTONUP_def
  WM_MBUTTONDOWN_def WM_MBUTTONUP_def WM_MOUSEWHEEL_def WM_XBUTTONDOWN_def WM_XBUTTONUP_def
  WM_MOUSEHWHEEL_def WM_NCXBUTTONDOWN_def WM_NCXBUTTONUP_def

lemmas VK_defs =
  VK_LBUTTON_def VK_RBUTTON_def VK_MBUTTON_def VK_XBUTTON1_def VK_XBUTTON2_def VK_CAPITAL_def
  VK_LWIN_def VK_RWIN_def VK_NUMLOCK_def VK_SCROLL_def VK_LSHIFT_def VK_RSHIFT_def
  VK_LCONTROL_def VK_RCONTROL_def VK_LMENU_def VK_RMENU_def

lemmas example_defs =
  example_env_def example_event_def example_state_def notification_def accept_def consume_def

lemmas example_post_defs =
  example_post_env_def example_world_def mouse_event_def key_event_def example_event_def

lemma example_simps:
  "current_modifiers (example_state cb) = 0"
  "click_count (example_state cb) = 2"
  "click_time (example_state cb) = 1000"
  "click_button (example_state cb) = MOUSE_BUTTON1"
  "last_click (example_state cb) = \<lparr>pt_x = 10, pt_y = 20\<rparr>"
  "dispatch (example_state cb) = cb"
  "dispatched (example_state cb) = []"
  "logged (example_state cb) = []"
  "pt (notification px py data t) = \<lparr>pt_x = px, pt_y = py\<rparr>"
  "mouseData (notification px py data t) = data"
  "ms_time (notification px py data t) = t"
  "hook_get_multi_click_time example_env = 500"
  "wheel_scroll_lines example_env = 3"
  "GetKeyState example_env vk = 0"
  "accept e = e"
  "ev_reserved (consume e) = 1"
  by (simp_all add: example_defs)

lemma example_post_simps:
  "calloc_ok (example_post_env send) k = True"
  "SendInput_ok (example_post_env send) k request = send k"
  "SM_CXVIRTUALSCREEN (example_post_env send) = 1920"
  "SM_CYVIRTUALSCREEN (example_post_env send) = 1080"
  "get_largest_negative_coordinates (example_post_env send) = \<lparr>lnc_left = 0, lnc_top = 0\<rparr>"
  "scancode_to_keycode (example_post_env send) code = code"
  "MapVirtualKeyW (example_post_env send) v = v"
  "allocations example_world = 0"
  "injected example_world = []"
  "post_logged example_world = []"
  "ev_type (mouse_event ty button px py) = ty"
  "data_mouse (mouse_event ty button px py)
     = \<lparr>mouse_button = button, mouse_clicks = 1, mouse_x = px, mouse_y = py\<rparr>"
  "ev_type (key_event ty modifiers code) = ty"
  "ev_mask (key_event ty modifiers code) = modifiers"
  "data_keyboard (key_event ty modifiers code) = \<lparr>keycode = code, rawcode = 0, keychar = 0\<rparr>"
  by (simp_all add: example_post_defs)

section \<open>Properties of the hook\<close>

subsection \<open>What dispatching leaves alone\<close>

lemma dispatch_event_click_count [simp]: "click_count (dispatch_event s) = click_count s"
  by (simp add: dispatch_event_def logger_def split: option.split)
lemma dispatch_event_click_button [simp]: "click_button (dispatch_event s) = click_button s"
  by (simp add: dispatch_event_def logger_def split: option.split)
lemma dispatch_event_click_time [simp]: "click_time (dispatch_event s) = click_time s"
  by (simp add: dispatch_event_def logger_def split: option.split)
lemma dispatch_event_last_click [simp]: "last_click (dispatch_event s) = last_click s"
  by (simp add: dispatch_event_def logger_def split: option.split)
lemma dispatch_event_current_modifiers [simp]:
  "current_modifiers (dispatch_event s) = current_modifiers s"
  by (simp add: dispatch_event_def logger_def split: option.split)
lemma dispatch_event_dispatch [simp]: "dispatch (dispatch_event s) = dispatch s"
  by (simp add: dispatch_event_def logger_def split: option.split)
lemma dispatch_event_logged_mono: "set (logged s) \<subseteq> set (logged (dispatch_event s))"
  by (auto simp add: dispatch_event_def logger_def split: option.split)

lemma dispatch_event_Some:
  "dispatch s = Some f \<Longrightarrow>
   dispatch_event s = s\<lparr>dispatched := dispatched s @ [event s], event := f (event s)\<rparr>"
  by (simp add: dispatch_event_def)

lemma populate_mouse_event_frame [simp]:
  "click_count (populate_mouse_event ty ts b m s) = click_count s"
  "click_button (populate_mouse_event ty ts b m s) = click_button s"
  "click_time (populate_mouse_event ty ts b m s) = click_time s"
  "last_click (populate_mouse_event ty ts b m s) = last_click s"
  "current_modifiers (populate_mouse_event ty ts b m s) = current_modifiers s"
  "dispatch (populate_mouse_event ty ts b m s) = dispatch s"
  "dispatched (populate_mouse_event ty ts b m s) = dispatched s"
  "logged (populate_mouse_event ty ts b m s) = logged s"
  by (simp_all add: populate_mouse_event_def)

lemma unat_saturating_increment:
  fixes c :: uint16_t
  shows "unat (if c < USHRT_MAX then c + 1 else c) = min (unat c + 1) 65535"
proof (cases "c < USHRT_MAX")
  case True
  then have lt: "unat c < 65535" by (simp add: USHRT_MAX_def word_less_nat_alt)
  then have "unat (c + 1) = unat c + 1" by (simp add: unat_word_ariths)
  with True lt show ?thesis by simp
next
  case False
  then have "\<not> unat c < 65535" by (simp add: USHRT_MAX_def word_less_nat_alt)
  moreover have "unat c < 2 ^ 16" using unsigned_less [of c, where ?'a = nat] by simp
  ultimately have "unat c = 65535" by simp
  with False show ?thesis by simp
qed

subsection \<open>The elapsed time\<close>

text \<open>
  The click classifier compares \<open>to_long_int (timestamp - click_time)\<close> with the
  multi-click interval.  That number is the difference of the two times reduced to 32
  signed bits; it is the difference itself exactly when the difference lies between
  \<open>- 2 ^ 31\<close> and \<open>2 ^ 31 - 1\<close> ms.
\<close>

lemma to_long_int_difference:
  fixes t0 t1 :: uint64_t
  shows "to_long_int (t1 - t0) = signed_take_bit 31 (uint t1 - uint t0)"
proof -
  have "to_long_int (t1 - t0) = signed_take_bit 31 (uint (t1 - t0))"
    by (simp add: to_long_int_def signed_ucast_eq)
  also have "uint (t1 - t0) = take_bit 64 (uint t1 - uint t0)"
    by (simp add: uint_word_ariths take_bit_eq_mod)
  also have "signed_take_bit 31 (take_bit 64 (uint t1 - uint t0)) = signed_take_bit 31 (uint t1 - uint t0)"
    by (simp add: signed_take_bit_take_bit)
  finally show ?thesis .
qed

lemma to_long_int_elapsed:
  fixes t0 t1 :: uint64_t
  assumes "- (2 ^ 31) \<le> uint t1 - uint t0" and "uint t1 - uint t0 < 2 ^ 31"
  shows "to_long_int (t1 - t0) = uint t1 - uint t0"
  unfolding to_long_int_difference
  using assms by (intro signed_take_bit_int_eq_self) simp_all

lemma to_long_int_exact_iff:
  fixes t0 t1 :: uint64_t
  shows "to_long_int (t1 - t0) = uint t1 - uint t0
     \<longleftrightarrow> - (2 ^ 31) \<le> uint t1 - uint t0 \<and> uint t1 - uint t0 < 2 ^ 31"
  by (simp add: to_long_int_difference signed_take_bit_int_eq_self_iff)

subsection \<open>Button presses\<close>

text \<open>
  C1, with the range in which the elapsed time is exact.  \<open>elapsed\<close> is the time
  of the press minus the recorded time of the last press, in milliseconds.  When it lies
  between \<open>- 2 ^ 31\<close> and \<open>2 ^ 31 - 1\<close>: if the button is the last tracked
  button and \<open>elapsed\<close> is at most the multi-click interval, the click count is
  incremented and stops at 65535, where a warning is logged instead; otherwise (another
  button, which includes a tracked button of "none", or a longer gap) the click count is
  1 and the button becomes the tracked button.  A button other than the tracked one
  resets the count to 1 whatever the two times are.  In every case the time and the
  position of the press are recorded.
\<close>

theorem process_button_pressed_click_tracking:
  "let s' = process_button_pressed env mshook button s;
       now = timestamp_of mshook;
       elapsed = uint now - uint (click_time s);
       same_streak = (button = click_button s \<and> elapsed \<le> hook_get_multi_click_time env)
   in (- (2 ^ 31) \<le> elapsed \<and> elapsed < 2 ^ 31 \<longrightarrow>
         (same_streak \<longrightarrow>
            unat (click_count s') = min (unat (click_count s) + 1) 65535
            \<and> click_button s' = click_button s
            \<and> (click_count s = USHRT_MAX \<longrightarrow>
                 (LOG_LEVEL_WARN, ''Click count overflow detected!'') \<in> set (logged s')))
         \<and> (\<not> same_streak \<longrightarrow> click_count s' = 1 \<and> click_button s' = button))
    \<and> (button \<noteq> click_button s \<longrightarrow> click_count s' = 1 \<and> click_button s' = button)
    \<and> click_time s' = now
    \<and> pt_x (last_click s') = pt_x (pt mshook)
    \<and> pt_y (last_click s') = pt_y (pt mshook)"
proof -
  let ?ts = "timestamp_of mshook"
  let ?elapsed = "uint ?ts - uint (click_time s)"
  let ?code = "button = click_button s
                \<and> to_long_int (?ts - click_time s) \<le> hook_get_multi_click_time env"
  let ?same = "button = click_button s \<and> ?elapsed \<le> hook_get_multi_click_time env"
  let ?s' = "process_button_pressed env mshook button s"
  have count: "click_count ?s' =
      (if ?code then (if click_count s < USHRT_MAX then click_count s + 1 else click_count s) else 1)"
    by (simp add: process_button_pressed_def Let_def logger_def)
  have button: "click_button ?s' = (if ?code then click_button s else button)"
    by (simp add: process_button_pressed_def Let_def logger_def)
  have time: "click_time ?s' = ?ts"
    by (simp add: process_button_pressed_def Let_def)
  have pos: "pt_x (last_click ?s') = pt_x (pt mshook)" "pt_y (last_click ?s') = pt_y (pt mshook)"
    by (simp_all add: process_button_pressed_def Let_def)
  have warn: "(LOG_LEVEL_WARN, ''Click count overflow detected!'') \<in> set (logged ?s')"
    if "?code" "click_count s = USHRT_MAX"
  proof -
    let ?s4 = "populate_mouse_event EVENT_MOUSE_PRESSED ?ts button mshook
       ((logger LOG_LEVEL_WARN ''Click count overflow detected!'' s)
          \<lparr>click_time := ?ts,
           last_click := (last_click s)\<lparr>pt_x := pt_x (pt mshook), pt_y := pt_y (pt mshook)\<rparr>\<rparr>)"
    have "?s' = dispatch_event ?s4"
      using that by (simp add: process_button_pressed_def Let_def logger_def)
    moreover have "(LOG_LEVEL_WARN, ''Click count overflow detected!'') \<in> set (logged ?s4)"
      by (simp add: logger_def)
    ultimately show ?thesis using dispatch_event_logged_mono [of ?s4] by auto
  qed
  have other: "click_count ?s' = 1 \<and> click_button ?s' = button" if "button \<noteq> click_button s"
    using that count button by simp
  have ranged: "(?same \<longrightarrow>
            unat (click_count ?s') = min (unat (click_count s) + 1) 65535
            \<and> click_button ?s' = click_button s
            \<and> (click_count s = USHRT_MAX \<longrightarrow>
                 (LOG_LEVEL_WARN, ''Click count overflow detected!'') \<in> set (logged ?s')))
         \<and> (\<not> ?same \<longrightarrow> click_count ?s' = 1 \<and> click_button ?s' = button)"
    if range: "- (2 ^ 31) \<le> ?elapsed \<and> ?elapsed < 2 ^ 31"
  proof -
    have el: "to_long_int (?ts - click_time s) = ?elapsed"
      using range by (intro to_long_int_elapsed) simp_all
    show ?thesis
    proof (cases "?same")
      case True
      then have code: "?code" by (simp add: el)
      with count have "unat (click_count ?s') = min (unat (click_count s) + 1) 65535"
        using unat_saturating_increment [of "click_count s"] by simp
      with True code button warn show ?thesis by auto
    next
      case False
      then have "\<not> ?code" by (simp add: el)
      with False count button show ?thesis by auto
    qed
  qed
  show ?thesis
    unfolding Let_def using ranged other time pos by blast
qed

theorem process_button_pressed_click_tracking_witness:
  "uint (timestamp_of (notification 10 20 0 1200)) - uint (click_time (example_state (Some accept))) = 200
   \<and> uint (timestamp_of (notification 10 20 0 1600)) - uint (click_time (example_state (Some accept))) = 600
   \<and> hook_get_multi_click_time example_env = 500
   \<and> click_button (example_state (Some accept)) = MOUSE_BUTTON1
   \<and> unat (click_count (example_state (Some accept))) = 2
   \<and> unat (click_count (process_button_pressed example_env (notification 10 20 0 1200)
                            MOUSE_BUTTON1 (example_state (Some accept)))) = 3
   \<and> click_count (process_button_pressed example_env (notification 10 20 0 1600)
                            MOUSE_BUTTON1 (example_state (Some accept))) = 1
   \<and> click_count (process_button_pressed example_env (notification 10 20 0 1200)
                            MOUSE_BUTTON2 (example_state (Some accept))) = 1
   \<and> click_button (process_button_pressed example_env (notification 10 20 0 1200)
                            MOUSE_BUTTON2 (example_state (Some accept))) = MOUSE_BUTTON2
   \<and> click_time (process_button_pressed example_env (notification 10 20 0 1200)
                            MOUSE_BUTTON2 (example_state (Some accept))) = 1200"
  using process_button_pressed_click_tracking
          [of example_env "notification 10 20 0 1200" MOUSE_BUTTON1 "example_state (Some accept)"]
        process_button_pressed_click_tracking
          [of example_env "notification 10 20 0 1600" MOUSE_BUTTON1 "example_state (Some accept)"]
        process_button_pressed_click_tracking
          [of example_env "notification 10 20 0 1200" MOUSE_BUTTON2 "example_state (Some accept)"]
  by (simp add: Let_def example_simps MOUSE_defs timestamp_of_def)

text \<open>
  C1 as it was stated does not hold for every press: button 1, pressed twice before, is
  pressed again \<open>2 ^ 31\<close> ms after its last press, with a multi-click interval of
  500 ms.  The gap is longer than the interval; the classifier reads it as
  \<open>- 2 ^ 31\<close> and the click count becomes 3, not 1.
\<close>

theorem process_button_pressed_click_tracking_counterexample:
  "click_button (example_state (Some accept)) = MOUSE_BUTTON1
   \<and> unat (click_count (example_state (Some accept))) = 2
   \<and> uint (timestamp_of (notification 10 20 0 0x800003E8))
       - uint (click_time (example_state (Some accept))) = 2 ^ 31
   \<and> hook_get_multi_click_time example_env = 500
   \<and> unat (click_count (process_button_pressed example_env (notification 10 20 0 0x800003E8)
                            MOUSE_BUTTON1 (example_state (Some accept)))) = 3"
  by (simp add: process_button_pressed_def Let_def example_simps MOUSE_defs timestamp_of_def
        to_long_int_def USHRT_MAX_def)

subsection \<open>Button releases\<close>

text \<open>
  C2, with the range in which the elapsed time is exact.  A button release, with a
  callback \<open>f\<close> registered: a released event with the current click count is
  dispatched; a clicked event with the same click count follows exactly when the
  callback did not mark the released event consumed (it did not leave \<open>reserved\<close>
  at 1) and the release is at the position of the last press.  After that, when
  \<open>elapsed\<close>, the time of the release minus the recorded time of the last press,
  lies between \<open>- 2 ^ 31\<close> and \<open>2 ^ 31 - 1\<close>, the click count is 0 if the
  button is the tracked one and \<open>elapsed\<close> is more than the multi-click interval,
  and unchanged otherwise; the release of a button other than the tracked one never
  changes it.  The state is arbitrary: a release with no tracked press is dispatched
  with the click count held.
\<close>

theorem process_button_released_events:
  assumes cb: "dispatch s = Some f"
  shows
  "\<exists>rel clk.
     ev_type rel = EVENT_MOUSE_RELEASED
     \<and> ev_reserved rel = 0
     \<and> mouse_button (data_mouse rel) = button
     \<and> mouse_clicks (data_mouse rel) = click_count s
     \<and> ev_type clk = EVENT_MOUSE_CLICKED
     \<and> mouse_button (data_mouse clk) = button
     \<and> mouse_clicks (data_mouse clk) = click_count s
     \<and> dispatched (process_button_released env mshook button s) =
         dispatched s @
           (if ev_reserved (f rel) \<noteq> 0x01
               \<and> pt_x (last_click s) = pt_x (pt mshook) \<and> pt_y (last_click s) = pt_y (pt mshook)
            then [rel, clk] else [rel])
     \<and> (let elapsed = uint (timestamp_of mshook) - uint (click_time s)
        in (- (2 ^ 31) \<le> elapsed \<and> elapsed < 2 ^ 31 \<longrightarrow>
              click_count (process_button_released env mshook button s) =
                (if button = click_button s \<and> hook_get_multi_click_time env < elapsed
                 then 0 else click_count s)))
     \<and> (button \<noteq> click_button s \<longrightarrow>
           click_count (process_button_released env mshook button s) = click_count s)"
proof -
  let ?ts = "timestamp_of mshook"
  let ?elapsed = "uint ?ts - uint (click_time s)"
  define s1 where "s1 = populate_mouse_event EVENT_MOUSE_RELEASED ?ts button mshook s"
  define rel where "rel = event s1"
  define s2 where "s2 = dispatch_event s1"
  define s2' where "s2' = populate_mouse_event EVENT_MOUSE_CLICKED ?ts button mshook s2"
  define clk where "clk = event s2'"
  define s3 where "s3 =
    (if ev_reserved (event s2) XOR 0x01 \<noteq> 0
        \<and> pt_x (last_click s2) = pt_x (pt mshook) \<and> pt_y (last_click s2) = pt_y (pt mshook)
     then dispatch_event s2' else s2)"
  let ?same = "ev_reserved (f rel) \<noteq> 0x01
      \<and> pt_x (last_click s) = pt_x (pt mshook) \<and> pt_y (last_click s) = pt_y (pt mshook)"
  have unfold: "process_button_released env mshook button s =
      (if button = click_button s3
            \<and> to_long_int (?ts - click_time s3) > hook_get_multi_click_time env
       then s3\<lparr>click_count := 0\<rparr> else s3)"
    by (simp add: process_button_released_def Let_def s3_def s2'_def s2_def s1_def)
  have cb1: "dispatch s1 = Some f" and d1: "dispatched s1 = dispatched s"
    by (simp_all add: s1_def cb)
  have s2: "s2 = s1\<lparr>dispatched := dispatched s @ [rel], event := f rel\<rparr>"
    by (simp add: s2_def rel_def dispatch_event_Some [OF cb1] d1)
  have cb2: "dispatch s2' = Some f" and d2: "dispatched s2' = dispatched s @ [rel]"
    by (simp_all add: s2'_def s2 cb1)
  have d2': "dispatch_event s2' = s2'\<lparr>dispatched := dispatched s @ [rel, clk], event := f clk\<rparr>"
    by (simp add: dispatch_event_Some [OF cb2] clk_def d2)
  have xor1: "(w XOR 0x01 \<noteq> 0) = (w \<noteq> 0x01)" for w :: uint16_t
    by (metis xor.right_neutral xor_self_eq bit.xor_left_self)
  have frame2: "event s2 = f rel" "last_click s2 = last_click s" "click_button s2 = click_button s"
    "click_time s2 = click_time s" "click_count s2 = click_count s"
    by (simp_all add: s2, simp_all add: s1_def)
  have cond: "(ev_reserved (event s2) XOR 0x01 \<noteq> 0
        \<and> pt_x (last_click s2) = pt_x (pt mshook) \<and> pt_y (last_click s2) = pt_y (pt mshook))
      = ?same"
    by (simp add: frame2 xor1)
  have rel_props: "ev_type rel = EVENT_MOUSE_RELEASED" "ev_reserved rel = 0"
    "mouse_button (data_mouse rel) = button" "mouse_clicks (data_mouse rel) = click_count s"
    by (simp_all add: rel_def s1_def populate_mouse_event_def)
  have clk_props: "ev_type clk = EVENT_MOUSE_CLICKED"
    "mouse_button (data_mouse clk) = button" "mouse_clicks (data_mouse clk) = click_count s"
    by (simp_all add: clk_def s2'_def populate_mouse_event_def frame2)
  have frame3: "click_button s3 = click_button s" "click_time s3 = click_time s"
    "click_count s3 = click_count s"
    by (simp_all add: s3_def s2'_def frame2)
  have disp3: "dispatched s3 = dispatched s @ (if ?same then [rel, clk] else [rel])"
    unfolding s3_def cond by (simp add: d2') (simp add: s2)
  have disp: "dispatched (process_button_released env mshook button s) = dispatched s3"
    and count: "click_count (process_button_released env mshook button s) =
         (if button = click_button s
             \<and> hook_get_multi_click_time env < to_long_int (?ts - click_time s)
          then 0 else click_count s)"
    by (simp_all add: unfold frame3)
  have ranged: "click_count (process_button_released env mshook button s) =
         (if button = click_button s \<and> hook_get_multi_click_time env < ?elapsed
          then 0 else click_count s)"
    if "- (2 ^ 31) \<le> ?elapsed \<and> ?elapsed < 2 ^ 31"
  proof -
    have "to_long_int (?ts - click_time s) = ?elapsed"
      using that by (intro to_long_int_elapsed) simp_all
    with count show ?thesis by simp
  qed
  have other: "click_count (process_button_released env mshook button s) = click_count s"
    if "button \<noteq> click_button s"
    using that count by simp
  show ?thesis
    unfolding Let_def
    using disp disp3 rel_props clk_props ranged other
    by (intro exI [of _ rel] exI [of _ clk]) simp
qed

theorem process_button_released_events_witness:
  "dispatch (example_state (Some accept)) = Some accept
   \<and> uint (timestamp_of (notification 10 20 0 1010)) - uint (click_time (example_state (Some accept))) = 10
   \<and> length (dispatched (process_button_released example_env (notification 10 20 0 1010) MOUSE_BUTTON1
               (example_state (Some accept)))) = 2
   \<and> click_count (process_button_released example_env (notification 10 20 0 1010) MOUSE_BUTTON1
               (example_state (Some accept))) = 2
   \<and> dispatch (example_state (Some consume)) = Some consume
   \<and> uint (timestamp_of (notification 10 20 0 2000)) - uint (click_time (example_state (Some consume))) = 1000
   \<and> length (dispatched (process_button_released example_env (notification 10 20 0 2000) MOUSE_BUTTON1
               (example_state (Some consume)))) = 1
   \<and> click_count (process_button_released example_env (notification 10 20 0 2000) MOUSE_BUTTON1
               (example_state (Some consume))) = 0
   \<and> length (dispatched (process_button_released example_env (notification 11 20 0 2000) MOUSE_BUTTON2
               (example_state (Some accept)))) = 1
   \<and> click_count (process_button_released example_env (notification 11 20 0 2000) MOUSE_BUTTON2
               (example_state (Some accept))) = 2"
proof -
  have a: "dispatch (example_state (Some accept)) = Some accept"
    and c: "dispatch (example_state (Some consume)) = Some consume"
    by (simp_all add: example_defs)
  show ?thesis
    using process_button_released_events [OF a, of MOUSE_BUTTON1 example_env "notification 10 20 0 1010"]
      process_button_released_events [OF c, of MOUSE_BUTTON1 example_env "notification 10 20 0 2000"]
      process_button_released_events [OF a, of MOUSE_BUTTON2 example_env "notification 11 20 0 2000"]
    by (auto simp add: example_simps MOUSE_defs timestamp_of_def Let_def)
qed

text \<open>
  C2 as it was stated does not hold for every release: button 1, the tracked button, is
  released \<open>2 ^ 31\<close> ms after its press, with a multi-click interval of 500 ms.
  The elapsed time exceeds the interval; the classifier reads it as \<open>- 2 ^ 31\<close>
  and the click count stays at 2.
\<close>

theorem process_button_released_events_counterexample:
  "click_button (example_state (Some accept)) = MOUSE_BUTTON1
   \<and> click_count (example_state (Some accept)) = 2
   \<and> uint (timestamp_of (notification 10 20 0 0x800003E8))
       - uint (click_time (example_state (Some accept))) = 2 ^ 31
   \<and> hook_get_multi_click_time example_env = 500
   \<and> click_count (process_button_released example_env (notification 10 20 0 0x800003E8)
                     MOUSE_BUTTON1 (example_state (Some accept))) = 2"
  by (simp add: process_button_released_def Let_def example_simps MOUSE_defs timestamp_of_def
        to_long_int_def populate_mouse_event_def dispatch_event_def)

subsection \<open>Motion\<close>

lemma any_button_bit:
  fixes m :: uint16_t
  shows "(m AND (MASK_BUTTON1 OR MASK_BUTTON2 OR MASK_BUTTON3 OR MASK_BUTTON4 OR MASK_BUTTON5) \<noteq> 0)
     = (m AND MASK_BUTTON1 \<noteq> 0 \<or> m AND MASK_BUTTON2 \<noteq> 0 \<or> m AND MASK_BUTTON3 \<noteq> 0
        \<or> m AND MASK_BUTTON4 \<noteq> 0 \<or> m AND MASK_BUTTON5 \<noteq> 0)"
  by (simp add: bit.conj_disj_distrib or_eq_0_iff)

lemma process_mouse_moved_same_position:
  "pt_x (last_click s) = pt_x (pt mshook) \<Longrightarrow> pt_y (last_click s) = pt_y (pt mshook) \<Longrightarrow>
   process_mouse_moved env mshook s = s"
  by (simp add: process_mouse_moved_def)

lemma process_mouse_moved_click_count:
  "pt_x (last_click s) \<noteq> pt_x (pt mshook) \<or> pt_y (last_click s) \<noteq> pt_y (pt mshook) \<Longrightarrow>
   click_count (process_mouse_moved env mshook s) =
     (if click_count s \<noteq> 0
         \<and> hook_get_multi_click_time env < to_long_int (timestamp_of mshook - click_time s)
      then 0 else click_count s)"
  by (simp add: process_mouse_moved_def Let_def)

lemma process_mouse_moved_elapsed:
  assumes "pt_x (last_click s) \<noteq> pt_x (pt mshook) \<or> pt_y (last_click s) \<noteq> pt_y (pt mshook)"
    and "- (2 ^ 31) \<le> uint (timestamp_of mshook) - uint (click_time s)"
    and "uint (timestamp_of mshook) - uint (click_time s) < 2 ^ 31"
  shows "click_count (process_mouse_moved env mshook s) =
     (if click_count s \<noteq> 0
         \<and> hook_get_multi_click_time env < uint (timestamp_of mshook) - uint (click_time s)
      then 0 else click_count s)"
  unfolding process_mouse_moved_click_count [OF assms(1)] to_long_int_elapsed [OF assms(2,3)] ..

text \<open>
  C3, with the range in which the elapsed time is exact.  A move to the position of the
  last click changes nothing and dispatches nothing.  Any other move, with a callback
  registered, dispatches exactly one event: a drag when one of the bits of the mouse
  buttons 1 to 5 is set in the modifier mask, a move otherwise; the event carries the
  click count as the move leaves it.  When \<open>elapsed\<close>, the time of the move minus
  the recorded time of the last press, lies between \<open>- 2 ^ 31\<close> and
  \<open>2 ^ 31 - 1\<close>, the move leaves the click count at 0 if it was not 0 and
  \<open>elapsed\<close> is more than the multi-click interval, and unchanged otherwise.
\<close>

theorem process_mouse_moved_events:
  "let elapsed = uint (timestamp_of mshook) - uint (click_time s)
   in (pt_x (last_click s) = pt_x (pt mshook) \<and> pt_y (last_click s) = pt_y (pt mshook)
         \<longrightarrow> process_mouse_moved env mshook s = s)
      \<and> (\<not> (pt_x (last_click s) = pt_x (pt mshook) \<and> pt_y (last_click s) = pt_y (pt mshook))
           \<and> dispatch s = Some f
         \<longrightarrow> (\<exists>e. dispatched (process_mouse_moved env mshook s) = dispatched s @ [e]
                \<and> ev_type e =
                    (if current_modifiers s AND MASK_BUTTON1 \<noteq> 0
                        \<or> current_modifiers s AND MASK_BUTTON2 \<noteq> 0
                        \<or> current_modifiers s AND MASK_BUTTON3 \<noteq> 0
                        \<or> current_modifiers s AND MASK_BUTTON4 \<noteq> 0
                        \<or> current_modifiers s AND MASK_BUTTON5 \<noteq> 0
                     then EVENT_MOUSE_DRAGGED else EVENT_MOUSE_MOVED)
                \<and> mouse_clicks (data_mouse e) = click_count (process_mouse_moved env mshook s))
             \<and> (- (2 ^ 31) \<le> elapsed \<and> elapsed < 2 ^ 31 \<longrightarrow>
                   click_count (process_mouse_moved env mshook s) =
                     (if click_count s \<noteq> 0 \<and> hook_get_multi_click_time env < elapsed
                      then 0 else click_count s)))"
  unfolding Let_def
proof (intro conjI impI)
  assume "pt_x (last_click s) = pt_x (pt mshook) \<and> pt_y (last_click s) = pt_y (pt mshook)"
  then show "process_mouse_moved env mshook s = s"
    by (simp add: process_mouse_moved_same_position)
next
  assume a: "\<not> (pt_x (last_click s) = pt_x (pt mshook) \<and> pt_y (last_click s) = pt_y (pt mshook))
    \<and> dispatch s = Some f"
  assume "- (2 ^ 31) \<le> uint (timestamp_of mshook) - uint (click_time s)
    \<and> uint (timestamp_of mshook) - uint (click_time s) < 2 ^ 31"
  with a show "click_count (process_mouse_moved env mshook s) =
      (if click_count s \<noteq> 0
          \<and> hook_get_multi_click_time env < uint (timestamp_of mshook) - uint (click_time s)
       then 0 else click_count s)"
    by (intro process_mouse_moved_elapsed) auto
next
  assume a: "\<not> (pt_x (last_click s) = pt_x (pt mshook) \<and> pt_y (last_click s) = pt_y (pt mshook))
    \<and> dispatch s = Some f"
  then have away: "pt_x (last_click s) \<noteq> pt_x (pt mshook) \<or> pt_y (last_click s) \<noteq> pt_y (pt mshook)"
    and cb: "dispatch s = Some f" by auto
  have count: "click_count (process_mouse_moved env mshook s) =
      (if click_count s \<noteq> 0
          \<and> hook_get_multi_click_time env < to_long_int (timestamp_of mshook - click_time s)
       then 0 else click_count s)"
    using away by (rule process_mouse_moved_click_count)
  let ?c = "if click_count s \<noteq> 0
          \<and> hook_get_multi_click_time env < to_long_int (timestamp_of mshook - click_time s)
       then 0 else click_count s"
  define e where "e = (event s)
     \<lparr>ev_time := timestamp_of mshook, ev_reserved := 0x00, ev_mask := current_modifiers s,
      ev_type := (if current_modifiers s
                     AND (MASK_BUTTON1 OR MASK_BUTTON2 OR MASK_BUTTON3 OR MASK_BUTTON4 OR MASK_BUTTON5)
                   \<noteq> 0 then EVENT_MOUSE_DRAGGED else EVENT_MOUSE_MOVED),
      data_mouse := (data_mouse (event s))
        \<lparr>mouse_button := MOUSE_NOBUTTON, mouse_clicks := ?c,
         mouse_x := ucast (pt_x (pt mshook)), mouse_y := ucast (pt_y (pt mshook))\<rparr>\<rparr>"
  have "dispatched (process_mouse_moved env mshook s) = dispatched s @ [e]"
    using away cb
    by (simp add: process_mouse_moved_def Let_def dispatch_event_def get_modifiers_def e_def)
  moreover have "ev_type e =
       (if current_modifiers s AND MASK_BUTTON1 \<noteq> 0
           \<or> current_modifiers s AND MASK_BUTTON2 \<noteq> 0
           \<or> current_modifiers s AND MASK_BUTTON3 \<noteq> 0
           \<or> current_modifiers s AND MASK_BUTTON4 \<noteq> 0
           \<or> current_modifiers s AND MASK_BUTTON5 \<noteq> 0
        then EVENT_MOUSE_DRAGGED else EVENT_MOUSE_MOVED)"
    unfolding e_def any_button_bit by simp
  moreover have "mouse_clicks (data_mouse e) = click_count (process_mouse_moved env mshook s)"
    unfolding count by (simp add: e_def)
  ultimately show "\<exists>e. dispatched (process_mouse_moved env mshook s) = dispatched s @ [e]
             \<and> ev_type e =
                 (if current_modifiers s AND MASK_BUTTON1 \<noteq> 0
                     \<or> current_modifiers s AND MASK_BUTTON2 \<noteq> 0
                     \<or> current_modifiers s AND MASK_BUTTON3 \<noteq> 0
                     \<or> current_modifiers s AND MASK_BUTTON4 \<noteq> 0
                     \<or> current_modifiers s AND MASK_BUTTON5 \<noteq> 0
                  then EVENT_MOUSE_DRAGGED else EVENT_MOUSE_MOVED)
             \<and> mouse_clicks (data_mouse e) = click_count (process_mouse_moved env mshook s)"
    by (intro exI [of _ e]) simp
qed

theorem process_mouse_moved_events_witness:
  "(pt_x (last_click (example_state (Some accept))) = pt_x (pt (notification 10 20 0 1100))
     \<and> pt_y (last_click (example_state (Some accept))) = pt_y (pt (notification 10 20 0 1100)))
   \<and> process_mouse_moved example_env (notification 10 20 0 1100) (example_state (Some accept))
       = example_state (Some accept)
   \<and> \<not> (pt_x (last_click (example_state (Some accept))) = pt_x (pt (notification 11 20 0 1100))
        \<and> pt_y (last_click (example_state (Some accept))) = pt_y (pt (notification 11 20 0 1100)))
   \<and> dispatch (example_state (Some accept)) = Some accept
   \<and> uint (timestamp_of (notification 11 20 0 1100)) - uint (click_time (example_state (Some accept))) = 100
   \<and> uint (timestamp_of (notification 11 20 0 1600)) - uint (click_time (example_state (Some accept))) = 600
   \<and> hook_get_multi_click_time example_env = 500
   \<and> (\<exists>e. dispatched (process_mouse_moved example_env (notification 11 20 0 1100)
                         (example_state (Some accept))) = [e]
          \<and> ev_type e = EVENT_MOUSE_MOVED \<and> mouse_clicks (data_mouse e) = 2)
   \<and> click_count (process_mouse_moved example_env (notification 11 20 0 1100)
                         (example_state (Some accept))) = 2
   \<and> (\<exists>e. dispatched (process_mouse_moved example_env (notification 11 20 0 1600)
                         ((example_state (Some accept))\<lparr>current_modifiers := MASK_BUTTON2\<rparr>)) = [e]
          \<and> ev_type e = EVENT_MOUSE_DRAGGED \<and> mouse_clicks (data_mouse e) = 0)
   \<and> click_count (process_mouse_moved example_env (notification 11 20 0 1600)
                         ((example_state (Some accept))\<lparr>current_modifiers := MASK_BUTTON2\<rparr>)) = 0"
  using process_mouse_moved_events
          [where s = "example_state (Some accept)" and mshook = "notification 10 20 0 1100"
             and env = example_env and f = accept]
        process_mouse_moved_events
          [where s = "example_state (Some accept)" and mshook = "notification 11 20 0 1100"
             and env = example_env and f = accept]
        process_mouse_moved_events
          [where s = "(example_state (Some accept))\<lparr>current_modifiers := MASK_BUTTON2\<rparr>"
             and mshook = "notification 11 20 0 1600" and env = example_env and f = accept]
  by (auto simp add: example_simps MASK_defs timestamp_of_def Let_def)

text \<open>
  C3 as it was stated does not hold for every move: with a click count of 2 and a
  multi-click interval of 500 ms, the pointer moves away from the click position
  \<open>2 ^ 31\<close> ms after the last press.  The interval has elapsed; the classifier reads
  the elapsed time as \<open>- 2 ^ 31\<close> and the click count stays at 2.
\<close>

theorem process_mouse_moved_events_counterexample:
  "pt_x (last_click (example_state (Some accept))) \<noteq> pt_x (pt (notification 11 20 0 0x800003E8))
   \<and> click_count (example_state (Some accept)) = 2
   \<and> uint (timestamp_of (notification 11 20 0 0x800003E8))
       - uint (click_time (example_state (Some accept))) = 2 ^ 31
   \<and> hook_get_multi_click_time example_env = 500
   \<and> click_count (process_mouse_moved example_env (notification 11 20 0 0x800003E8)
                     (example_state (Some accept))) = 2"
  by (simp add: process_mouse_moved_def Let_def example_simps timestamp_of_def
        to_long_int_def dispatch_event_def)

subsection \<open>The wheel, and what resets the click count\<close>

lemma process_mouse_wheel_click_tracking:
  "click_count (process_mouse_wheel env mshook direction s) = 1"
  "click_button (process_mouse_wheel env mshook direction s) = MOUSE_NOBUTTON"
  by (simp_all add: process_mouse_wheel_def Let_def)

text \<open>
  C5, as the code has it.  A move away from the position of the last click, at a time
  whose difference \<open>elapsed\<close> from the recorded time of the last press lies between
  \<open>- 2 ^ 31\<close> and \<open>2 ^ 31 - 1\<close>, resets the click count to 0 only when the
  count is not 0 and \<open>elapsed\<close> is more than the multi-click interval; otherwise
  the count stays.  A wheel event sets the click count to 1, not 0, and the tracked
  button to "none", so the next press of any button starts a streak with count 1.
\<close>

theorem motion_and_wheel_click_count:
  "(let elapsed = uint (timestamp_of mshook) - uint (click_time s)
    in (pt_x (last_click s) \<noteq> pt_x (pt mshook) \<or> pt_y (last_click s) \<noteq> pt_y (pt mshook))
       \<and> - (2 ^ 31) \<le> elapsed \<and> elapsed < 2 ^ 31 \<longrightarrow>
       click_count (process_mouse_moved env mshook s) =
         (if click_count s \<noteq> 0 \<and> hook_get_multi_click_time env < elapsed
          then 0 else click_count s))
   \<and> click_count (process_mouse_wheel env mshook direction s) = 1
   \<and> click_button (process_mouse_wheel env mshook direction s) = MOUSE_NOBUTTON
   \<and> (button \<noteq> MOUSE_NOBUTTON \<longrightarrow>
        click_count (process_button_pressed env mshook' button
                       (process_mouse_wheel env mshook direction s)) = 1)"
  unfolding Let_def
  by (intro conjI impI)
     (simp_all add: process_mouse_moved_elapsed process_mouse_wheel_click_tracking
        process_button_pressed_def Let_def)

theorem motion_and_wheel_click_count_witness:
  "pt_x (last_click (example_state None)) \<noteq> pt_x (pt (notification 11 20 0 1600))
   \<and> uint (timestamp_of (notification 11 20 0 1600)) - uint (click_time (example_state None)) = 600
   \<and> hook_get_multi_click_time example_env = 500
   \<and> click_count (process_mouse_moved example_env (notification 11 20 0 1600) (example_state None)) = 0
   \<and> uint (timestamp_of (notification 11 20 0 1100)) - uint (click_time (example_state None)) = 100
   \<and> click_count (process_mouse_moved example_env (notification 11 20 0 1100) (example_state None)) = 2
   \<and> MOUSE_BUTTON1 \<noteq> MOUSE_NOBUTTON
   \<and> click_count (process_button_pressed example_env (notification 10 20 0 1200) MOUSE_BUTTON1
         (process_mouse_wheel example_env (notification 10 20 0x00780000 1100)
            WHEEL_VERTICAL_DIRECTION (example_state None))) = 1"
  using motion_and_wheel_click_count
          [where s = "example_state None" and mshook = "notification 11 20 0 1600"
             and env = example_env and direction = WHEEL_VERTICAL_DIRECTION
             and button = MOUSE_BUTTON1 and mshook' = "notification 10 20 0 1200"]
        motion_and_wheel_click_count
          [where s = "example_state None" and mshook = "notification 11 20 0 1100"
             and env = example_env and direction = WHEEL_VERTICAL_DIRECTION
             and button = MOUSE_BUTTON1 and mshook' = "notification 10 20 0 1200"]
        motion_and_wheel_click_count
          [where s = "example_state None" and mshook = "notification 10 20 0x00780000 1100"
             and env = example_env and direction = WHEEL_VERTICAL_DIRECTION
             and button = MOUSE_BUTTON1 and mshook' = "notification 10 20 0 1200"]
  by (simp add: example_simps MOUSE_defs timestamp_of_def Let_def)

text \<open>
  C5 as it was stated does not hold: after two presses of button 1, a move away from the
  click position within the interval leaves the click count at 2, and a wheel event
  leaves it at 1.
\<close>

theorem motion_and_wheel_click_count_counterexample:
  "pt_x (last_click (example_state (Some accept))) \<noteq> pt_x (pt (notification 11 20 0 1100))
   \<and> click_count (process_mouse_moved example_env (notification 11 20 0 1100)
                    (example_state (Some accept))) = 2
   \<and> click_count (process_mouse_wheel example_env (notification 10 20 0x00780000 1100)
                    WHEEL_VERTICAL_DIRECTION (example_state (Some accept))) = 1"
  by (simp add: process_mouse_moved_def process_mouse_wheel_def Let_def example_defs
        to_long_int_def timestamp_of_def)

subsection \<open>The modifier mask and the extra buttons\<close>

text \<open>
  The modifier mask after a notification.  The standard buttons and the modifier keys set
  and clear their own bit.  The extra-button branch of the mouse hook gives the button
  identifier (4 or 5) to \<open>set_modifier_mask\<close> and \<open>unset_modifier_mask\<close> where the other
  branches give \<open>MASK_BUTTON4\<close> and \<open>MASK_BUTTON5\<close>.
\<close>

lemma process_current_modifiers [simp]:
  "current_modifiers (process_button_pressed env mshook button s) = current_modifiers s"
  "current_modifiers (process_button_released env mshook button s) = current_modifiers s"
  "current_modifiers (process_mouse_moved env mshook s) = current_modifiers s"
  "current_modifiers (process_mouse_wheel env mshook direction s) = current_modifiers s"
  by (simp_all add: process_button_pressed_def process_button_released_def
        process_mouse_moved_def process_mouse_wheel_def Let_def logger_def)

lemma mouse_hook_event_proc_modifiers:
  "current_modifiers (fst (mouse_hook_event_proc env nCode wParam mshook s)) =
     (if wParam = WM_LBUTTONDOWN then current_modifiers s OR MASK_BUTTON1
      else if wParam = WM_RBUTTONDOWN then current_modifiers s OR MASK_BUTTON2
      else if wParam = WM_MBUTTONDOWN then current_modifiers s OR MASK_BUTTON3
      else if wParam = WM_XBUTTONDOWN \<or> wParam = WM_NCXBUTTONDOWN then
        (if HIWORD (mouseData mshook) = XBUTTON1 then current_modifiers s OR MASK_BUTTON4
         else if HIWORD (mouseData mshook) = XBUTTON2 then current_modifiers s OR MASK_BUTTON5
         else if HIWORD (mouseData mshook) = 4 then current_modifiers s OR MASK_META_L
         else if HIWORD (mouseData mshook) = 5
           then current_modifiers s OR MASK_SHIFT_L OR MASK_META_L
         else current_modifiers s)
      else if wParam = WM_LBUTTONUP then current_modifiers s AND NOT MASK_BUTTON1
      else if wParam = WM_RBUTTONUP then current_modifiers s AND NOT MASK_BUTTON2
      else if wParam = WM_MBUTTONUP then current_modifiers s AND NOT MASK_BUTTON3
      else if wParam = WM_XBUTTONUP \<or> wParam = WM_NCXBUTTONUP then
        (if HIWORD (mouseData mshook) = XBUTTON1 then current_modifiers s AND NOT MASK_BUTTON4
         else if HIWORD (mouseData mshook) = XBUTTON2 then current_modifiers s AND NOT MASK_BUTTON5
         else if HIWORD (mouseData mshook) = 4 then current_modifiers s AND NOT MASK_META_L
         else if HIWORD (mouseData mshook) = 5
           then current_modifiers s AND NOT (MASK_SHIFT_L OR MASK_META_L)
         else current_modifiers s)
      else current_modifiers s)"
  by (simp add: mouse_hook_event_proc_def Let_def set_modifier_mask_def unset_modifier_mask_def
        MOUSE_BUTTON4_def MOUSE_BUTTON5_def MASK_META_L_def MASK_SHIFT_L_def or.assoc)

lemma populate_key_event_frame [simp]:
  "current_modifiers (populate_key_event ty ts code raw ch s) = current_modifiers s"
  "dispatch (populate_key_event ty ts code raw ch s) = dispatch s"
  by (simp_all add: populate_key_event_def)

lemma typed_events_current_modifiers:
  "current_modifiers (foldl (\<lambda>s c. dispatch_event (populate_key_event ty ts code raw (g c) s)) s cs)
     = current_modifiers s"
  by (induction cs arbitrary: s) simp_all

lemma keyboard_hook_event_proc_modifiers:
  "current_modifiers (fst (keyboard_hook_event_proc env nCode wParam kbhook s)) =
     (if wParam = WM_KEYDOWN \<or> wParam = WM_SYSKEYDOWN then
        (case key_modifier_mask (vkCode kbhook) of
           Some m \<Rightarrow> current_modifiers s OR m | None \<Rightarrow> current_modifiers s)
      else if wParam = WM_KEYUP \<or> wParam = WM_SYSKEYUP then
        (case key_modifier_mask (vkCode kbhook) of
           Some m \<Rightarrow> current_modifiers s AND NOT m | None \<Rightarrow> current_modifiers s)
      else current_modifiers s)"
  by (simp add: keyboard_hook_event_proc_def process_key_pressed_def process_key_released_def
        Let_def typed_events_current_modifiers set_modifier_mask_def unset_modifier_mask_def
        split: option.split)

lemma initialize_modifiers_nothing_held:
  "(\<And>vk. \<not> key_is_down env vk) \<Longrightarrow> current_modifiers (initialize_modifiers env s) = 0"
  by (simp add: initialize_modifiers_def)

text \<open>
  C4 at a failing input.  The hook is initialized with no key or button held (mask 0) and
  gets \<open>WM_XBUTTONDOWN\<close> with 5 in the high word of \<open>mouseData\<close>.  It dispatches a
  press of button 5, but the mask it sets is the button identifier 5, which is the bits of
  shift-left and meta-left, and the bit of button 5 stays clear.  With \<open>XBUTTON2\<close> in the
  high word the same button sets its own bit.
\<close>

theorem extra_button_press_modifier_mask:
  "current_modifiers (initialize_modifiers example_env (example_state (Some accept))) = 0
   \<and> current_modifiers (fst (mouse_hook_event_proc example_env 0 WM_XBUTTONDOWN
         (notification 10 20 0x00050000 1200)
         (initialize_modifiers example_env (example_state (Some accept)))))
       = MASK_SHIFT_L OR MASK_META_L
   \<and> current_modifiers (fst (mouse_hook_event_proc example_env 0 WM_XBUTTONDOWN
         (notification 10 20 0x00050000 1200)
         (initialize_modifiers example_env (example_state (Some accept)))))
       AND MASK_BUTTON5 = 0
   \<and> map (\<lambda>e. (ev_type e, mouse_button (data_mouse e), ev_mask e))
         (dispatched (fst (mouse_hook_event_proc example_env 0 WM_XBUTTONDOWN
            (notification 10 20 0x00050000 1200)
            (initialize_modifiers example_env (example_state (Some accept))))))
       = [(EVENT_MOUSE_PRESSED, MOUSE_BUTTON5, MASK_SHIFT_L OR MASK_META_L)]
   \<and> current_modifiers (fst (mouse_hook_event_proc example_env 0 WM_XBUTTONDOWN
         (notification 10 20 0x00020000 1200)
         (initialize_modifiers example_env (example_state (Some accept)))))
       = MASK_BUTTON5"
proof -
  have init: "initialize_modifiers example_env (example_state (Some accept))
                = example_state (Some accept)"
    by (simp add: initialize_modifiers_def key_is_down_def example_simps example_state_def)
  show ?thesis
    unfolding init
    by (simp add: mouse_hook_event_proc_def example_simps MOUSE_defs MASK_defs WM_defs Let_def
          HIWORD_def XBUTTON1_def XBUTTON2_def set_modifier_mask_def process_button_pressed_def
          populate_mouse_event_def dispatch_event_def get_modifiers_def)
qed

subsection \<open>A session\<close>

text \<open>
  The scenario of the specification, with a multi-click interval of 400 ms: a press at
  time 0, a release at 10 at the same position, a press at 200, a release at 210 and a
  press at 700.  The events dispatched are a press, a release and a click with count 1, the
  same with count 2, and a press with count 1 again.
\<close>

lemma multi_click_scenario:
  "map (\<lambda>e. (ev_type e, mouse_clicks (data_mouse e)))
     (dispatched
        (mouse_session (example_env\<lparr>hook_get_multi_click_time := 400\<rparr>)
           [(WM_LBUTTONDOWN, notification 50 60 0 0),
            (WM_LBUTTONUP, notification 50 60 0 10),
            (WM_LBUTTONDOWN, notification 50 60 0 200),
            (WM_LBUTTONUP, notification 50 60 0 210),
            (WM_LBUTTONDOWN, notification 50 60 0 700)]
           (startup_state (Some accept))))
   = [(EVENT_MOUSE_PRESSED, 1), (EVENT_MOUSE_RELEASED, 1), (EVENT_MOUSE_CLICKED, 1),
      (EVENT_MOUSE_PRESSED, 2), (EVENT_MOUSE_RELEASED, 2), (EVENT_MOUSE_CLICKED, 2),
      (EVENT_MOUSE_PRESSED, 1)]"
  by (simp add: mouse_hook_event_proc_def WM_defs MOUSE_defs MASK_defs Let_def
        process_button_pressed_def process_button_released_def populate_mouse_event_def
        dispatch_event_def set_modifier_mask_def unset_modifier_mask_def get_modifiers_def
        startup_state_def example_defs to_long_int_def timestamp_of_def USHRT_MAX_def)

section \<open>Properties of the posts\<close>

subsection \<open>Unfolding the two functions\<close>

lemma unsupported_type:
  assumes "ev_type ev = EVENT_HOOK_ENABLED \<or> ev_type ev = EVENT_HOOK_DISABLED
           \<or> ev_type ev = EVENT_KEY_TYPED \<or> ev_type ev = EVENT_MOUSE_CLICKED"
  shows "do_hook_post_event env ev move_mouse w =
     (if calloc_ok env (allocations w)
      then (UIOHOOK_FAILURE, ev, w\<lparr>allocations := allocations w + 1\<rparr>)
      else (UIOHOOK_ERROR_OUT_OF_MEMORY, ev,
            post_logger LOG_LEVEL_ERROR ''failed to allocate memory: calloc!''
              (w\<lparr>allocations := allocations w + 1\<rparr>)))"
  using assms by (subst do_hook_post_event.simps) (auto simp add: Let_def)

lemma map_mouse_event_no_button:
  assumes "ev_type ev = EVENT_MOUSE_PRESSED \<or> ev_type ev = EVENT_MOUSE_RELEASED"
    and "mouse_button (data_mouse ev) = MOUSE_NOBUTTON"
  shows "fst (map_mouse_event env ev input0 move_mouse w) = UIOHOOK_FAILURE"
    and "fst (snd (map_mouse_event env ev input0 move_mouse w)) = ev"
    and "injected (snd (snd (snd (map_mouse_event env ev input0 move_mouse w)))) = injected w"
  using assms
  by (subst map_mouse_event.simps, force simp add: Let_def post_logger_def)+

lemma no_button:
  assumes ty: "ev_type ev = EVENT_MOUSE_PRESSED \<or> ev_type ev = EVENT_MOUSE_RELEASED"
    and b: "mouse_button (data_mouse ev) = MOUSE_NOBUTTON"
  shows "fst (do_hook_post_event env ev move_mouse w) =
            (if calloc_ok env (allocations w) then UIOHOOK_FAILURE else UIOHOOK_ERROR_OUT_OF_MEMORY)"
    and "fst (snd (do_hook_post_event env ev move_mouse w)) = ev"
    and "injected (snd (snd (do_hook_post_event env ev move_mouse w))) = injected w"
proof -
  have no_key: "\<not> (ev_type ev = EVENT_KEY_PRESSED \<or> ev_type ev = EVENT_KEY_RELEASED)"
    using ty by auto
  have mouse: "ev_type ev = EVENT_MOUSE_PRESSED \<or> ev_type ev = EVENT_MOUSE_RELEASED
      \<or> ev_type ev = EVENT_MOUSE_WHEEL \<or> ev_type ev = EVENT_MOUSE_MOVED
      \<or> ev_type ev = EVENT_MOUSE_DRAGGED"
    using ty by auto
  show "fst (do_hook_post_event env ev move_mouse w) =
            (if calloc_ok env (allocations w) then UIOHOOK_FAILURE else UIOHOOK_ERROR_OUT_OF_MEMORY)"
    by (subst do_hook_post_event.simps)
       (simp add: no_key mouse Let_def map_mouse_event_no_button [OF ty b])
  show "fst (snd (do_hook_post_event env ev move_mouse w)) = ev"
    by (subst do_hook_post_event.simps)
       (simp add: no_key mouse Let_def map_mouse_event_no_button [OF ty b])
  show "injected (snd (snd (do_hook_post_event env ev move_mouse w))) = injected w"
    by (subst do_hook_post_event.simps)
       (simp add: no_key mouse Let_def map_mouse_event_no_button [OF ty b] post_logger_def)
qed



lemma retype_same: "ev_type ev = ty \<Longrightarrow> ev\<lparr>ev_type := ty\<rparr> = ev"
  by (cases ev) simp








text \<open>
  A wheel event: the request has the wheel flag alone, on both entry points.  Posted with
  a move, its coordinates, which that flag does not use, are computed from the storage
  of the wheel payload that \<open>data.mouse.x\<close> and \<open>data.mouse.y\<close> name.
\<close>

lemma map_mouse_event_wheel:
  assumes "ev_type ev = EVENT_MOUSE_WHEEL"
  shows "fst (map_mouse_event env ev input0 move_mouse w) = UIOHOOK_SUCCESS"
    and "mi_dwFlags (mi (fst (snd (snd (map_mouse_event env ev input0 move_mouse w)))))
          = MOUSEEVENTF_WHEEL"
    and "mi_dx (mi (fst (snd (snd (map_mouse_event env ev input0 True w))))) =
          nc_x (normalize_coordinates (sint (wheel_y (data_wheel ev)))
                  (sint (word_cat (wheel_padding (data_wheel ev)) (wheel_type (data_wheel ev))
                           :: int16_t))
                  (uint (ucast (SM_CXVIRTUALSCREEN env) :: uint16_t))
                  (uint (ucast (SM_CYVIRTUALSCREEN env) :: uint16_t))
                  (get_largest_negative_coordinates env))"
    and "mi_dy (mi (fst (snd (snd (map_mouse_event env ev input0 True w))))) =
          nc_y (normalize_coordinates (sint (wheel_y (data_wheel ev)))
                  (sint (word_cat (wheel_padding (data_wheel ev)) (wheel_type (data_wheel ev))
                           :: int16_t))
                  (uint (ucast (SM_CXVIRTUALSCREEN env) :: uint16_t))
                  (uint (ucast (SM_CYVIRTUALSCREEN env) :: uint16_t))
                  (get_largest_negative_coordinates env))"
  using assms
  by (subst map_mouse_event.simps, force simp add: Let_def wheel_as_mouse_def)+



text \<open>
  The event that a post hands back is the caller's, except after a release posted with a
  move, which comes back as a press.
\<close>

lemma returned_event:
  "fst (snd (do_hook_post_event env ev move_mouse w)) =
     (if calloc_ok env (allocations w) \<and> ev_type ev = EVENT_MOUSE_RELEASED
         \<and> mouse_button (data_mouse ev) \<noteq> MOUSE_NOBUTTON \<and> move_mouse
      then ev\<lparr>ev_type := EVENT_MOUSE_PRESSED\<rparr> else ev)"
proof (cases "calloc_ok env (allocations w)")
  case False
  then show ?thesis by (subst do_hook_post_event.simps) simp
next
  case True
  have inner: "fst (snd (do_hook_post_event env (ev\<lparr>ev_type := EVENT_MOUSE_MOVED\<rparr>) True w'))
      = ev\<lparr>ev_type := EVENT_MOUSE_MOVED\<rparr>" for w'
    by (subst do_hook_post_event.simps, subst map_mouse_event.simps) (simp add: Let_def)
  show ?thesis
    using True
    by (subst do_hook_post_event.simps, subst map_mouse_event.simps)
       (cases "ev_type ev"; simp add: Let_def inner retype_same)
qed

subsection \<open>The extended-key loop\<close>

lemma extended_key_loop_only_first:
  "extended_key_loop 0 wVk dwFlags =
     (if wVk = VK_UP then dwFlags OR KEYEVENTF_EXTENDEDKEY else dwFlags)"
proof -
  have one: "extended_key_loop (Suc 0) VK_UP fl = fl" for fl
    by (subst extended_key_loop.simps) (simp add: extend_key_table_def VK_UP_def VK_DOWN_def)
  show ?thesis
    by (subst extended_key_loop.simps) (simp add: extend_key_table_def one)
qed

text \<open>
  C7 at a failing input.  A key press with both shift bits in its mask whose native key
  is \<open>VK_DOWN\<close>, a member of the extended-key table: the request that is injected has
  the key-down flags only, without the extended-key flag.  The loop stops at the first
  entry of the table that is not the key, so only \<open>VK_UP\<close>, the first entry, gets the
  flag.
\<close>

theorem shift_down_key_not_extended:
  "VK_DOWN \<in> set extend_key_table
   \<and> ev_mask (key_event EVENT_KEY_PRESSED MASK_SHIFT VK_DOWN) AND MASK_SHIFT \<noteq> 0
   \<and> map (\<lambda>request. (ki_wVk (ki request), ki_dwFlags (ki request)))
        (injected (snd (snd (hook_post_event (example_post_env (\<lambda>k. True))
                               (key_event EVENT_KEY_PRESSED MASK_SHIFT VK_DOWN) example_world))))
      = [(VK_DOWN, KEYEVENTF_KEYDOWN)]
   \<and> KEYEVENTF_KEYDOWN AND KEYEVENTF_EXTENDEDKEY = 0
   \<and> map (\<lambda>request. (ki_wVk (ki request), ki_dwFlags (ki request)))
        (injected (snd (snd (hook_post_event (example_post_env (\<lambda>k. True))
                               (key_event EVENT_KEY_PRESSED MASK_SHIFT VK_UP) example_world))))
      = [(VK_UP, KEYEVENTF_KEYDOWN OR KEYEVENTF_EXTENDEDKEY)]"
  by (simp add: hook_post_event_def do_hook_post_event.simps map_keyboard_event_def Let_def
        example_post_simps extended_key_loop_only_first extend_key_table_def
        MASK_defs VK_DOWN_def VK_UP_def KEYEVENTF_KEYDOWN_def KEYEVENTF_EXTENDEDKEY_def)

subsection \<open>Events that cannot be posted\<close>

text \<open>
  C8, as the code has it.  A press or release whose button is "none", and an event of a
  type that has no injection (hook enabled, hook disabled, key typed, mouse clicked):
  both entry points return \<open>UIOHOOK_FAILURE\<close>, the status that every other failed
  post returns too, or \<open>UIOHOOK_ERROR_OUT_OF_MEMORY\<close> when the allocation of the
  request fails, which happens before the type of the event is looked at; in both
  cases \<open>SendInput\<close> is not called.
\<close>

theorem unsupported_event_not_injected:
  assumes "((ev_type ev = EVENT_MOUSE_PRESSED \<or> ev_type ev = EVENT_MOUSE_RELEASED)
              \<and> mouse_button (data_mouse ev) = MOUSE_NOBUTTON)
           \<or> ev_type ev = EVENT_HOOK_ENABLED \<or> ev_type ev = EVENT_HOOK_DISABLED
           \<or> ev_type ev = EVENT_KEY_TYPED \<or> ev_type ev = EVENT_MOUSE_CLICKED"
  shows "fst (hook_post_event env ev w)
           = (if calloc_ok env (allocations w) then UIOHOOK_FAILURE else UIOHOOK_ERROR_OUT_OF_MEMORY)
         \<and> injected (snd (snd (hook_post_event env ev w))) = injected w
         \<and> fst (hook_post_event_dont_move_mouse env ev w)
           = (if calloc_ok env (allocations w) then UIOHOOK_FAILURE else UIOHOOK_ERROR_OUT_OF_MEMORY)
         \<and> injected (snd (snd (hook_post_event_dont_move_mouse env ev w))) = injected w"
proof -
  have "fst (do_hook_post_event env ev mv w)
           = (if calloc_ok env (allocations w) then UIOHOOK_FAILURE else UIOHOOK_ERROR_OUT_OF_MEMORY)
        \<and> injected (snd (snd (do_hook_post_event env ev mv w))) = injected w" for mv
  proof (cases "ev_type ev = EVENT_MOUSE_PRESSED \<or> ev_type ev = EVENT_MOUSE_RELEASED")
    case True
    with assms have "mouse_button (data_mouse ev) = MOUSE_NOBUTTON" by auto
    with True show ?thesis by (simp add: no_button)
  next
    case False
    with assms have "ev_type ev = EVENT_HOOK_ENABLED \<or> ev_type ev = EVENT_HOOK_DISABLED
           \<or> ev_type ev = EVENT_KEY_TYPED \<or> ev_type ev = EVENT_MOUSE_CLICKED" by auto
    then show ?thesis by (simp add: unsupported_type post_logger_def)
  qed
  then show ?thesis by (simp add: hook_post_event_def hook_post_event_dont_move_mouse_def)
qed

theorem unsupported_event_not_injected_witness:
  "ev_type (mouse_event EVENT_MOUSE_PRESSED MOUSE_NOBUTTON 100 200) = EVENT_MOUSE_PRESSED
   \<and> mouse_button (data_mouse (mouse_event EVENT_MOUSE_PRESSED MOUSE_NOBUTTON 100 200)) = MOUSE_NOBUTTON
   \<and> fst (hook_post_event (example_post_env (\<lambda>k. True))
            (mouse_event EVENT_MOUSE_PRESSED MOUSE_NOBUTTON 100 200) example_world) = UIOHOOK_FAILURE
   \<and> injected (snd (snd (hook_post_event (example_post_env (\<lambda>k. True))
            (mouse_event EVENT_MOUSE_PRESSED MOUSE_NOBUTTON 100 200) example_world))) = []
   \<and> ev_type (key_event EVENT_KEY_TYPED 0 30) = EVENT_KEY_TYPED
   \<and> fst (hook_post_event_dont_move_mouse (example_post_env (\<lambda>k. True))
            (key_event EVENT_KEY_TYPED 0 30) example_world) = UIOHOOK_FAILURE
   \<and> injected (snd (snd (hook_post_event_dont_move_mouse (example_post_env (\<lambda>k. True))
            (key_event EVENT_KEY_TYPED 0 30) example_world))) = []
   \<and> fst (hook_post_event ((example_post_env (\<lambda>k. True))\<lparr>calloc_ok := (\<lambda>k. False)\<rparr>)
            (key_event EVENT_KEY_TYPED 0 30) example_world) = UIOHOOK_ERROR_OUT_OF_MEMORY
   \<and> injected (snd (snd (hook_post_event ((example_post_env (\<lambda>k. True))\<lparr>calloc_ok := (\<lambda>k. False)\<rparr>)
            (key_event EVENT_KEY_TYPED 0 30) example_world))) = []"
proof -
  have h1: "((ev_type (mouse_event EVENT_MOUSE_PRESSED MOUSE_NOBUTTON 100 200) = EVENT_MOUSE_PRESSED
               \<or> ev_type (mouse_event EVENT_MOUSE_PRESSED MOUSE_NOBUTTON 100 200) = EVENT_MOUSE_RELEASED)
              \<and> mouse_button (data_mouse (mouse_event EVENT_MOUSE_PRESSED MOUSE_NOBUTTON 100 200))
                  = MOUSE_NOBUTTON)
           \<or> ev_type (mouse_event EVENT_MOUSE_PRESSED MOUSE_NOBUTTON 100 200) = EVENT_HOOK_ENABLED
           \<or> ev_type (mouse_event EVENT_MOUSE_PRESSED MOUSE_NOBUTTON 100 200) = EVENT_HOOK_DISABLED
           \<or> ev_type (mouse_event EVENT_MOUSE_PRESSED MOUSE_NOBUTTON 100 200) = EVENT_KEY_TYPED
           \<or> ev_type (mouse_event EVENT_MOUSE_PRESSED MOUSE_NOBUTTON 100 200) = EVENT_MOUSE_CLICKED"
    by (simp add: example_post_simps)
  have h2: "((ev_type (key_event EVENT_KEY_TYPED 0 30) = EVENT_MOUSE_PRESSED
               \<or> ev_type (key_event EVENT_KEY_TYPED 0 30) = EVENT_MOUSE_RELEASED)
              \<and> mouse_button (data_mouse (key_event EVENT_KEY_TYPED 0 30)) = MOUSE_NOBUTTON)
           \<or> ev_type (key_event EVENT_KEY_TYPED 0 30) = EVENT_HOOK_ENABLED
           \<or> ev_type (key_event EVENT_KEY_TYPED 0 30) = EVENT_HOOK_DISABLED
           \<or> ev_type (key_event EVENT_KEY_TYPED 0 30) = EVENT_KEY_TYPED
           \<or> ev_type (key_event EVENT_KEY_TYPED 0 30) = EVENT_MOUSE_CLICKED"
    by (simp add: example_post_simps)
  show ?thesis
    using unsupported_event_not_injected [OF h1, of "example_post_env (\<lambda>k. True)" example_world]
      unsupported_event_not_injected [OF h2, of "example_post_env (\<lambda>k. True)" example_world]
      unsupported_event_not_injected
        [OF h2, of "(example_post_env (\<lambda>k. True))\<lparr>calloc_ok := (\<lambda>k. False)\<rparr>" example_world]
    by (simp add: example_post_simps)
qed

text \<open>
  C8 as it was stated does not hold: a press with button "none" returns the out-of-memory
  status when the allocation fails, and the status it returns otherwise,
  \<open>UIOHOOK_FAILURE\<close>, is the status of a key press whose code has no native key and
  of a move that \<open>SendInput\<close> refuses: there is no status of its own for an
  unsupported event.
\<close>

theorem unsupported_event_not_injected_counterexample:
  "mouse_button (data_mouse (mouse_event EVENT_MOUSE_PRESSED MOUSE_NOBUTTON 100 200)) = MOUSE_NOBUTTON
   \<and> fst (hook_post_event ((example_post_env (\<lambda>k. True))\<lparr>calloc_ok := (\<lambda>k. False)\<rparr>)
            (mouse_event EVENT_MOUSE_PRESSED MOUSE_NOBUTTON 100 200) example_world)
      = UIOHOOK_ERROR_OUT_OF_MEMORY
   \<and> fst (hook_post_event (example_post_env (\<lambda>k. True))
            (mouse_event EVENT_MOUSE_PRESSED MOUSE_NOBUTTON 100 200) example_world)
      = UIOHOOK_FAILURE
   \<and> scancode_to_keycode (example_post_env (\<lambda>k. True)) 0 = 0
   \<and> fst (hook_post_event (example_post_env (\<lambda>k. True))
            (key_event EVENT_KEY_PRESSED 0 0) example_world)
      = UIOHOOK_FAILURE
   \<and> fst (hook_post_event (example_post_env (\<lambda>k. False))
            (mouse_event EVENT_MOUSE_MOVED MOUSE_NOBUTTON 100 200) example_world)
      = UIOHOOK_FAILURE"
  by (simp add: hook_post_event_def do_hook_post_event.simps map_mouse_event.simps
        map_keyboard_event_def Let_def example_post_simps MOUSE_defs post_logger_def)

subsection \<open>Absolute coordinates\<close>





subsection \<open>A button event posted with a move\<close>

text \<open>
  C6 at a failing input.  A press of button 1 is posted with a move, and the system
  refuses the first \<open>SendInput\<close> (the move) and accepts the second (the button).  The
  two requests are injected in that order, the move first.  The failure of the move is
  logged by the inner \<open>hook_post_event\<close>, whose status \<open>map_mouse_event\<close> drops: the
  post returns success.
\<close>

theorem failed_move_not_reported:
  "fst (hook_post_event (example_post_env (\<lambda>k. k \<noteq> 0))
            (mouse_event EVENT_MOUSE_PRESSED MOUSE_BUTTON1 100 200) example_world) = UIOHOOK_SUCCESS
   \<and> map (\<lambda>request. mi_dwFlags (mi request))
        (injected (snd (snd (hook_post_event (example_post_env (\<lambda>k. k \<noteq> 0))
            (mouse_event EVENT_MOUSE_PRESSED MOUSE_BUTTON1 100 200) example_world))))
      = [MOUSEEVENTF_ABSOLUTE OR MOUSEEVENTF_MOVE OR MOUSEEVENTF_VIRTUALDESK, MOUSEEVENTF_LEFTDOWN]
   \<and> post_logged (snd (snd (hook_post_event (example_post_env (\<lambda>k. k \<noteq> 0))
            (mouse_event EVENT_MOUSE_PRESSED MOUSE_BUTTON1 100 200) example_world)))
      = [(LOG_LEVEL_ERROR, ''SendInput() failed!'')]"
  by (simp add: hook_post_event_def do_hook_post_event.simps map_mouse_event.simps Let_def
        example_post_simps MOUSE_defs button_flags_def post_logger_def)

text \<open>
  C10 at a failing input.  A release of button 1 posted with a move succeeds, and the
  caller's event, a release before the call, is a press after it: the branch of the
  release restores the type to \<open>EVENT_MOUSE_PRESSED\<close>.  A press keeps its type.
\<close>

theorem released_event_left_retyped:
  "ev_type (mouse_event EVENT_MOUSE_RELEASED MOUSE_BUTTON1 100 200) = EVENT_MOUSE_RELEASED
   \<and> fst (hook_post_event (example_post_env (\<lambda>k. True))
            (mouse_event EVENT_MOUSE_RELEASED MOUSE_BUTTON1 100 200) example_world) = UIOHOOK_SUCCESS
   \<and> ev_type (fst (snd (hook_post_event (example_post_env (\<lambda>k. True))
            (mouse_event EVENT_MOUSE_RELEASED MOUSE_BUTTON1 100 200) example_world)))
      = EVENT_MOUSE_PRESSED
   \<and> ev_type (fst (snd (hook_post_event (example_post_env (\<lambda>k. True))
            (mouse_event EVENT_MOUSE_PRESSED MOUSE_BUTTON1 100 200) example_world)))
      = EVENT_MOUSE_PRESSED"
  by (simp add: hook_post_event_def do_hook_post_event.simps map_mouse_event.simps Let_def
        example_post_simps MOUSE_defs button_flags_def)

end
